theory Spec2Isabelle
  imports Main "HOL-Library.Sublist"
begin

section \<open>Values and exceptions\<close>

text \<open>
  The Python exceptions the modelled code raises, by class and message (\<open>str(e)\<close>).
  All are subclasses of \<open>Exception\<close>; \<open>OverflowError\<close> is an \<open>ArithmeticError\<close>,
  neither a \<open>ValueError\<close> nor a \<open>TypeError\<close>.
\<close>

datatype exc_class =
    KeyError
  | IndexError
  | TypeError
  | AttributeError
  | UnboundLocalError
  | OverflowError
  | ValueError
  | OtherException

datatype error = Exc exc_class string

fun exc_class_of :: "error \<Rightarrow> exc_class" where
  "exc_class_of (Exc c m) = c"

fun str_of_error :: "error \<Rightarrow> string" where
  "str_of_error (Exc c m) = m"

text \<open>
  A Python float: a finite double \<open>m * 2^e\<close>, the two infinities, or NaN.
\<close>

datatype pyfloat = Finite int int | PosInf | NegInf | NaN

text \<open>
  The values a decoded JSON document is made of. An object is an association list in
  arrival order; its keys are taken to be distinct, as in a Python dict.
\<close>

datatype json =
    JNull
  | JBool bool
  | JInt int
  | JFloat pyfloat
  | JStr string
  | JArr "json list"
  | JObj "(string \<times> json) list"


text \<open>\<open>d.get(key, dflt)\<close> on a dict given as an association list.\<close>

definition dict_get :: "('k \<times> 'v) list \<Rightarrow> 'k \<Rightarrow> 'v \<Rightarrow> 'v" where
  "dict_get d k dflt = (case map_of d k of None \<Rightarrow> dflt | Some v \<Rightarrow> v)"

section \<open>Property.safe_int and Property.safe_float (app/tools_integration/zillow_integration.py)\<close>

fun bitlen :: "nat \<Rightarrow> nat" where
  "bitlen n = (if n = 0 then 0 else Suc (bitlen (n div 2)))"

declare bitlen.simps [simp del]

text \<open>
  \<open>float(n)\<close> for a Python int: round to nearest, ties to even, on 53 bits;
  \<open>OverflowError\<close> when the rounded value does not fit a double.
\<close>

definition float_of_int :: "int \<Rightarrow> error + pyfloat" where
  "float_of_int n =
     (let a = nat \<bar>n\<bar> in
      if a < 2 ^ 53 then Inr (Finite n 0)
      else
        let k = bitlen a - 53;
            q = a div 2 ^ k;
            r = a mod 2 ^ k;
            h = 2 ^ (k - 1);
            q' = (if r > h \<or> (r = h \<and> odd q) then q + 1 else q)
        in if q' * 2 ^ k \<ge> 2 ^ 1024 then Inl (Exc OverflowError ''int too large to convert to float'')
           else Inr (Finite (sgn n * int q') (int k)))"

text \<open>
  \<open>float(value)\<close>. The parser of float literals is the interpreter's and is a
  parameter: \<open>None\<close> stands for its \<open>ValueError\<close>.
\<close>

fun py_float :: "(string \<Rightarrow> pyfloat option) \<Rightarrow> json \<Rightarrow> error + pyfloat" where
  "py_float parse JNull = Inl (Exc TypeError ''float() argument must be a string or a real number'')"
| "py_float parse (JBool b) = Inr (Finite (if b then 1 else 0) 0)"
| "py_float parse (JInt n) = float_of_int n"
| "py_float parse (JFloat f) = Inr f"
| "py_float parse (JStr s) =
     (case parse s of None \<Rightarrow> Inl (Exc ValueError ''could not convert string to float'') | Some f \<Rightarrow> Inr f)"
| "py_float parse (JArr xs) = Inl (Exc TypeError ''float() argument must be a string or a real number'')"
| "py_float parse (JObj kvs) = Inl (Exc TypeError ''float() argument must be a string or a real number'')"

text \<open>\<open>int(f)\<close> for a float: truncation towards zero; NaN and the infinities raise.\<close>

fun int_of_float :: "pyfloat \<Rightarrow> error + int" where
  "int_of_float (Finite m e) =
     (if 0 \<le> e then Inr (m * 2 ^ nat e)
      else Inr (sgn m * (\<bar>m\<bar> div 2 ^ nat (- e))))"
| "int_of_float PosInf = Inl (Exc OverflowError ''cannot convert float infinity to integer'')"
| "int_of_float NegInf = Inl (Exc OverflowError ''cannot convert float infinity to integer'')"
| "int_of_float NaN = Inl (Exc ValueError ''cannot convert float NaN to integer'')"

text \<open>\<open>except (ValueError, TypeError)\<close>: which exceptions the handler catches.\<close>

definition is_value_or_type_error :: "error \<Rightarrow> bool" where
  "is_value_or_type_error e = (exc_class_of e = ValueError \<or> exc_class_of e = TypeError)"

definition safe_int :: "(string \<Rightarrow> pyfloat option) \<Rightarrow> json \<Rightarrow> int \<Rightarrow> error + int" where
  "safe_int parse v dflt =
     (if v = JNull then Inr dflt
      else
        (case (case py_float parse v of Inl e \<Rightarrow> Inl e | Inr f \<Rightarrow> int_of_float f) of
           Inr n \<Rightarrow> Inr n
         | Inl e \<Rightarrow> if is_value_or_type_error e then Inr dflt else Inl e))"

definition safe_float :: "(string \<Rightarrow> pyfloat option) \<Rightarrow> json \<Rightarrow> pyfloat \<Rightarrow> error + pyfloat" where
  "safe_float parse v dflt =
     (if v = JNull then Inr dflt
      else
        (case py_float parse v of
           Inr f \<Rightarrow> Inr f
         | Inl e \<Rightarrow> if is_value_or_type_error e then Inr dflt else Inl e))"

section \<open>CallRequest.execute (app/models/models.py)\<close>

text \<open>
  A \<open>datetime\<close> by the proleptic Gregorian ordinal of its date and the time within the
  day; \<open>.date()\<close> keeps the ordinal, \<open>+ timedelta(days=n)\<close> moves it. The upper end
  of the type's range (year 9999) is not modelled.
\<close>

record datetime =
  ordinal :: int
  time_of_day :: nat

definition date_of :: "datetime \<Rightarrow> int" where
  "date_of dt = ordinal dt"

definition add_days :: "datetime \<Rightarrow> int \<Rightarrow> datetime" where
  "add_days dt n = dt\<lparr>ordinal := ordinal dt + n\<rparr>"

record CallRequest =
  contact_name :: string
  discussion_points :: "string option"
  call_time :: string

text \<open>The payload posted to \<open>/initiate_call\<close>; \<open>call_time\<close> is sent in ISO format.\<close>

record call_data =
  cd_user_id :: "string option"
  cd_contact_name :: string
  cd_call_time :: datetime
  cd_discussion_points :: "string option"

definition call_time_error :: error where
  "call_time_error = Exc ValueError ''Call time must be either now (today) or the next day.''"

text \<open>
  What \<open>execute\<close> does with the backend's answer: 200, 202, 300 and 404 return the
  decoded body, any other status raises with the body's message. \<open>py_str\<close> is the
  interpreter's \<open>str\<close> of a decoded value.
\<close>

definition call_response :: "(json \<Rightarrow> string) \<Rightarrow> int \<Rightarrow> json \<Rightarrow> error + json" where
  "call_response py_str status response_data =
     (if status \<in> set [200, 202] then Inr response_data
      else if status = 300 then Inr response_data
      else if status = 404 then Inr response_data
      else
        (case response_data of
           JObj kvs \<Rightarrow>
             Inl (Exc ValueError (''Booking failed: '' @
               py_str (dict_get kvs ''message'' (JStr ''Unknown error occurred''))))
         | _ \<Rightarrow> Inl (Exc AttributeError ''object has no attribute 'get' '')))"

text \<open>
  \<open>CallRequest.execute\<close>. Parameters: \<open>fromisoformat\<close> is \<open>datetime.fromisoformat\<close>
  (\<open>None\<close> for its \<open>ValueError\<close>), \<open>post\<close> the backend's answer to the posted
  payload (status and decoded body, or the exception of the request), \<open>now\<close> the
  clock. The result is the list of payloads posted and the value returned or the
  exception raised (the \<open>except\<close> clause re-raises).
\<close>

definition CallRequest_execute ::
  "(string \<Rightarrow> datetime option) \<Rightarrow> (json \<Rightarrow> string) \<Rightarrow> (call_data \<Rightarrow> error + int \<times> json) \<Rightarrow>
   datetime \<Rightarrow> CallRequest \<Rightarrow> string option \<Rightarrow> call_data list \<times> (error + json)" where
  "CallRequest_execute fromisoformat py_str post now self user_id =
     (case fromisoformat (call_time self) of
        None \<Rightarrow> ([], Inl (Exc ValueError ''Invalid isoformat string''))
      | Some call_datetime \<Rightarrow>
          (let tomorrow = add_days now 1 in
           if date_of call_datetime \<notin> set [date_of now, date_of tomorrow]
           then ([], Inl call_time_error)
           else
             (let payload = \<lparr>cd_user_id = user_id,
                             cd_contact_name = contact_name self,
                             cd_call_time = call_datetime,
                             cd_discussion_points = discussion_points self\<rparr>
              in (case post payload of
                    Inl e \<Rightarrow> ([payload], Inl e)
                  | Inr (status, response_data) \<Rightarrow>
                      ([payload], call_response py_str status response_data)))))"

section \<open>LlmClient (app/src/llm.py)\<close>

record ResponseResponse =
  response_id :: int
  content :: string
  content_complete :: bool
  end_call :: bool

text \<open>An accumulated tool call: \<open>{"id", "function": {"name", "arguments"}, "type"}\<close>.\<close>

datatype tool_call = ToolCall (tc_id: "string option") (tc_name: string) (tc_arguments: string)

text \<open>
  Messages of a prompt: a role and a content, the assistant message carrying tool calls,
  and a tool message (\<open>tool_call_id\<close>, \<open>name\<close>, \<open>content\<close>).
\<close>

datatype message =
    Msg string string
  | AssistantToolCalls string "tool_call list"
  | ToolMsg (tool_call_id: "string option") (tool_msg_name: string) (tool_msg_content: string)

text \<open>
  The session. \<open>metadata\<close> holds the peer's dynamic variables, which are strings.
\<close>

record LlmClient =
  call_id :: "string option"
  metadata :: "(string \<times> string) list option"
  message_history :: "message list"
  conversations :: "(string \<times> json list) list"

definition get_time_based_greeting :: "nat \<Rightarrow> string" where
  "get_time_based_greeting hour =
     (if 5 \<le> hour \<and> hour < 12 then ''Good morning''
      else if 12 \<le> hour \<and> hour < 17 then ''Good afternoon''
      else if 17 \<le> hour \<and> hour < 22 then ''Good evening''
      else ''Happy late night'')"

text \<open>
  \<open>random.choice(xs)\<close>, with the drawn number as a parameter; \<open>IndexError\<close> on an
  empty list.
\<close>

definition choice :: "nat \<Rightarrow> 'a list \<Rightarrow> error + 'a" where
  "choice r xs =
     (if xs = [] then Inl (Exc IndexError ''Cannot choose from an empty sequence'')
      else Inr (xs ! (r mod length xs)))"

definition custom_wait_variants :: "string \<Rightarrow> string list" where
  "custom_wait_variants time_greeting =
     [time_greeting @ ''! I'm Drew. How can I assist you today?'',
      time_greeting @ ''! I'm Drew. What do you need help with?'',
      time_greeting @ ''! I'm Drew. Ready to get started?'',
      time_greeting @ ''! I'm Drew. How's your day going?'',
      ''Hey there! I'm Drew. How can I support you today?'',
      ''Hello! I'm Drew. What's on your mind?'',
      time_greeting @ ''! I'm Drew. Let's make today productive!'',
      time_greeting @ ''! I'm Drew. Let me know how I can help!'',
      ''Hi! I'm Drew. Need help with anything?'',
      ''Hey! I'm Drew. What's the plan for today?'']"

definition onboarding_greeting :: "string \<Rightarrow> string \<Rightarrow> string \<Rightarrow> string list" where
  "onboarding_greeting time_greeting user_name bot_name =
     [time_greeting @ '', '' @ user_name @ ''! Welcome aboard! I'm '' @ bot_name @ '', your personal assistant. I help manage leads, schedule appointments, track key metrics, and keep your workflow seamless. Let's get started!'',
      ''Hey '' @ user_name @ '', great to have you here! I'm '' @ bot_name @ '', your AI-powered assistant. I'll help you stay organized by managing leads, scheduling, and tracking key performance metrics. Let's make things efficient!'',
      time_greeting @ '', '' @ user_name @ ''! I'm '' @ bot_name @ '', your virtual assistant. I handle lead management, scheduling, and performance tracking so you can focus on closing more deals.'',
      ''Welcome, '' @ user_name @ ''! I'm '' @ bot_name @ '', designed to help you streamline your workflow by managing leads, scheduling appointments, and keeping track of your business performance.'',
      ''Nice to meet you, '' @ user_name @ ''! I'm '' @ bot_name @ '', your smart assistant. I help you stay on top of leads, appointments, and key insights, making your workflow smoother and more efficient.'',
      time_greeting @ '', '' @ user_name @ ''! Congrats on getting started! I'm '' @ bot_name @ '', your AI assistant, here to help with lead tracking, scheduling, and performance insights. Let's get things rolling!'',
      ''Hey '' @ user_name @ ''! I'm '' @ bot_name @ '', your personal assistant! I'll handle scheduling, lead tracking, and key insights so you can focus on growing your business. Let's get started!'',
      time_greeting @ '', '' @ user_name @ ''! I'm '' @ bot_name @ '', your AI-powered real estate assistant. I'll keep your workflow organized, track your performance, and help you stay productive. Let's go!'']"

definition contextual_greeting :: "string \<Rightarrow> string \<Rightarrow> string list" where
  "contextual_greeting time_greeting user_name =
     [time_greeting @ '', '' @ user_name @ ''! Hope you're having a great day!'',
      ''Hey '' @ user_name @ '', how's your day going?'',
      ''Hi '' @ user_name @ '', How's your day going?'',
      ''Good to see you, '' @ user_name @ ''! What's on your plate today?'',
      time_greeting @ '', '' @ user_name @ ''. How can I assist you today?'',
      ''Hello, '' @ user_name @ ''. Let me know how I can help!'',
      time_greeting @ '', '' @ user_name @ ''. Ready to tackle the day?'',
      ''Welcome back, '' @ user_name @ ''. What's your priority today?'',
      ''Hey '' @ user_name @ '', let's make today productive!'',
      time_greeting @ '', '' @ user_name @ ''! Ready to close some deals?'',
      ''Hope you're feeling great, '' @ user_name @ ''! Let's get started.'',
      time_greeting @ '', '' @ user_name @ ''! What's the next big win for today?'',
      ''Hi '' @ user_name @ '', how's business looking today?'',
      ''Hey '' @ user_name @ '', anything exciting happening in real estate?'',
      time_greeting @ '', '' @ user_name @ ''! What's on your mind?'',
      ''Hello, '' @ user_name @ ''. Need help with anything specific?'']"

text \<open>\<open>settings.opening_lines\<close> (app/core/config.py).\<close>

definition opening_lines :: "string list" where
  "opening_lines =
     [''Hi, I'm Drew, your virtual real estate assistant. How can I help you today?'',
      ''Hello, I'm Drew! Ready to assist with all your real estate needs. What can I do for you?'',
      ''Hey there, I'm Drew! Looking for your dream home or need help with your listings?'',
      ''Hi, I'm Drew. Let's find the perfect property or tackle your real estate tasks together!'',
      ''Hello, I'm Drew, your AI assistant. Let's make your real estate journey smoother. What's on your mind?'',
      ''Hi, I'm Drew! Here to help with buying, selling, or managing your real estate needs.'',
      ''Hello, I'm Drew. Whether it's scheduling a showing or finding leads, I've got you covered!'',
      ''Hi there, I'm Drew! Ready to help with everything from listings to leads. How can I assist?'',
      ''Hey, I'm Drew, your personal real estate assistant. Let's get to work!'',
      ''Hi, I'm Drew! Need help finding a home or managing your clients? Just say the word!'']"

text \<open>
  \<open>not self.metadata\<close> holds for \<open>None\<close> and for the empty dict.
\<close>

definition metadata_absent :: "LlmClient \<Rightarrow> bool" where
  "metadata_absent self = (case metadata self of None \<Rightarrow> True | Some md \<Rightarrow> md = [])"

text \<open>
  The greeting \<open>draft_begin_message\<close> picks, for the hour of the clock and the number
  drawn by \<open>random.choice\<close>.
\<close>

definition select_greeting :: "nat \<Rightarrow> nat \<Rightarrow> LlmClient \<Rightarrow> error + string" where
  "select_greeting hour r self =
     (let time_greeting = get_time_based_greeting hour in
      case metadata self of
        None \<Rightarrow> choice r (custom_wait_variants time_greeting)
      | Some md \<Rightarrow>
          if md = [] then choice r (custom_wait_variants time_greeting)
          else
            (let user_name = dict_get md ''user_name'' '''';
                 bot_name = dict_get md ''bot_name'' ''Drew'';
                 custom_greeting =
                   (if map_of md ''first_interaction'' = Some ''true''
                    then onboarding_greeting time_greeting user_name bot_name
                    else contextual_greeting time_greeting user_name)
             in if user_name \<noteq> [] then choice r custom_greeting
                else choice r opening_lines))"

definition draft_begin_message ::
  "nat \<Rightarrow> nat \<Rightarrow> LlmClient \<Rightarrow> error + LlmClient \<times> ResponseResponse" where
  "draft_begin_message hour r self =
     (case select_greeting hour r self of
        Inl e \<Rightarrow> Inl e
      | Inr greeting \<Rightarrow>
          Inr (self\<lparr>message_history := message_history self @ [Msg ''assistant'' greeting]\<rparr>,
               \<lparr>response_id = 0, content = greeting, content_complete = True,
                end_call = False\<rparr>))"

subsection \<open>The model's stream\<close>

text \<open>
  A streamed chunk as the code reads it: \<open>chunk.choices[0].delta\<close> with its
  \<open>tool_calls\<close> (each with \<open>index\<close>, \<open>id\<close>, \<open>function.name\<close>,
  \<open>function.arguments\<close>) and \<open>content\<close>. Every part may be \<open>None\<close>.
\<close>

datatype function_delta = FunctionDelta (fd_name: "string option") (fd_arguments: "string option")

datatype tool_call_delta =
  ToolCallDelta (tcd_index: "int option") (tcd_id: "string option")
    (tcd_function: "function_delta option")

datatype delta = Delta (tool_calls: "tool_call_delta list option") (delta_content: "string option")

datatype chunk = Chunk (choices: "delta list")

text \<open>
  A stream: the chunks it delivers, then its end or the exception it raises.
\<close>

datatype stream = Stream (chunks: "chunk list") (failure: "error option")

text \<open>Truthiness of an optional string and of an optional list.\<close>

definition nonempty :: "'a list option \<Rightarrow> bool" where
  "nonempty x = (case x of None \<Rightarrow> False | Some v \<Rightarrow> v \<noteq> [])"

text \<open>
  The position a Python list of length \<open>n\<close> gives to the index \<open>i\<close>: indices below
  zero count back from the end, anything outside \<open>-n \<dots> n-1\<close> has no position.
\<close>

definition py_position :: "nat \<Rightarrow> int \<Rightarrow> nat option" where
  "py_position n i =
     (if 0 \<le> i \<and> i < int n then Some (nat i)
      else if i < 0 \<and> - int n \<le> i then Some (nat (int n + i))
      else None)"

text \<open>
  \<open>xs[index] = f(xs[index])\<close>: \<open>IndexError\<close> without a position, \<open>TypeError\<close> when
  the index is \<open>None\<close>.
\<close>

definition update_at :: "'a list \<Rightarrow> int option \<Rightarrow> ('a \<Rightarrow> 'a) \<Rightarrow> error + 'a list" where
  "update_at xs index f =
     (case index of
        None \<Rightarrow> Inl (Exc TypeError ''list indices must be integers or slices, not NoneType'')
      | Some i \<Rightarrow>
          (case py_position (length xs) i of
             None \<Rightarrow> Inl (Exc IndexError ''list index out of range'')
           | Some k \<Rightarrow> Inr (xs[k := f (xs ! k)])))"

text \<open>One tool-call delta of a chunk, applied to \<open>current_tool_calls\<close>.\<close>

definition accumulate_tool_call :: "tool_call list \<Rightarrow> tool_call_delta \<Rightarrow> error + tool_call list" where
  "accumulate_tool_call current_tool_calls tool_call =
     (let cur1 =
        (case tcd_index tool_call of
           None \<Rightarrow> current_tool_calls
         | Some i \<Rightarrow>
             if i \<ge> int (length current_tool_calls)
             then current_tool_calls @ [ToolCall (tcd_id tool_call) '''' '''']
             else current_tool_calls)
      in case tcd_function tool_call of
           None \<Rightarrow> Inl (Exc AttributeError ''NoneType object has no attribute name'')
         | Some fn \<Rightarrow>
             (case (if nonempty (fd_name fn)
                    then update_at cur1 (tcd_index tool_call)
                           (\<lambda>tc. ToolCall (tc_id tc) (the (fd_name fn)) (tc_arguments tc))
                    else Inr cur1) of
                Inl e \<Rightarrow> Inl e
              | Inr cur2 \<Rightarrow>
                  if nonempty (fd_arguments fn)
                  then update_at cur2 (tcd_index tool_call)
                         (\<lambda>tc. ToolCall (tc_id tc) (tc_name tc)
                                  (tc_arguments tc @ the (fd_arguments fn)))
                  else Inr cur2))"

text \<open>\<open>for tool_call in delta.tool_calls\<close>.\<close>

fun accumulate_tool_calls :: "tool_call list \<Rightarrow> tool_call_delta list \<Rightarrow> error + tool_call list" where
  "accumulate_tool_calls cur [] = Inr cur"
| "accumulate_tool_calls cur (d # ds) =
     (case accumulate_tool_call cur d of
        Inl e \<Rightarrow> Inl e
      | Inr cur' \<Rightarrow> accumulate_tool_calls cur' ds)"

definition frame :: "int \<Rightarrow> string \<Rightarrow> bool \<Rightarrow> ResponseResponse" where
  "frame rid text complete =
     \<lparr>response_id = rid, content = text, content_complete = complete, end_call = False\<rparr>"

text \<open>
  The first \<open>async for chunk in response\<close> loop: the frames it yields, and either the
  exception that ends it or the tool calls and the text accumulated.
\<close>

fun stream_text ::
  "int \<Rightarrow> chunk list \<Rightarrow> tool_call list \<Rightarrow> string \<Rightarrow>
   ResponseResponse list \<times> (error + tool_call list \<times> string)" where
  "stream_text rid [] current_tool_calls current_content =
     ([], Inr (current_tool_calls, current_content))"
| "stream_text rid (c # cs) current_tool_calls current_content =
     (case choices c of
        [] \<Rightarrow> ([], Inl (Exc IndexError ''list index out of range''))
      | d # _ \<Rightarrow>
          (case (if nonempty (tool_calls d)
                 then accumulate_tool_calls current_tool_calls (the (tool_calls d))
                 else Inr current_tool_calls) of
             Inl e \<Rightarrow> ([], Inl e)
           | Inr cur' \<Rightarrow>
               if nonempty (delta_content d)
               then (let (fs, r) = stream_text rid cs cur'
                                     (current_content @ the (delta_content d))
                     in (frame rid (the (delta_content d)) False # fs, r))
               else stream_text rid cs cur' current_content))"

text \<open>The second loop, over the follow-up stream: text only.\<close>

fun stream_final :: "int \<Rightarrow> chunk list \<Rightarrow> ResponseResponse list \<times> error option" where
  "stream_final rid [] = ([], None)"
| "stream_final rid (c # cs) =
     (case choices c of
        [] \<Rightarrow> ([], Some (Exc IndexError ''list index out of range''))
      | d # _ \<Rightarrow>
          if nonempty (delta_content d)
          then (let (fs, r) = stream_final rid cs
                in (frame rid (the (delta_content d)) False # fs, r))
          else stream_final rid cs)"

subsection \<open>What a sequence of tool-call deltas carries\<close>

text \<open>
  The name and argument fragments of a delta (empty when absent), and the last non-empty
  name among the deltas, \<open>n0\<close> if there is none.
\<close>

definition delta_name :: "tool_call_delta \<Rightarrow> string" where
  "delta_name d =
     (case tcd_function d of
        None \<Rightarrow> []
      | Some fn \<Rightarrow> (case fd_name fn of None \<Rightarrow> [] | Some n \<Rightarrow> n))"

definition delta_arguments :: "tool_call_delta \<Rightarrow> string" where
  "delta_arguments d =
     (case tcd_function d of
        None \<Rightarrow> []
      | Some fn \<Rightarrow> (case fd_arguments fn of None \<Rightarrow> [] | Some a \<Rightarrow> a))"

definition last_name :: "string \<Rightarrow> tool_call_delta list \<Rightarrow> string" where
  "last_name n0 ds =
     (case filter (\<lambda>n. n \<noteq> []) (map delta_name ds) of [] \<Rightarrow> n0 | ns \<Rightarrow> last ns)"

text \<open>A chunk that carries one tool-call delta and no text.\<close>

definition tool_chunk :: "tool_call_delta \<Rightarrow> chunk" where
  "tool_chunk d = Chunk [Delta (Some [d]) None]"

subsection \<open>Tool execution\<close>

text \<open>
  The five tools, each standing for \<open>Tool(**args).execute(...)\<close> with the session's
  user id: the decoded arguments in, the result or the exception out.
\<close>

record tool_set =
  PlacesSearch :: "json \<Rightarrow> error + json"
  BookingRequest :: "json \<Rightarrow> error + json"
  CallRequestTool :: "json \<Rightarrow> error + json"
  MessageRequest :: "json \<Rightarrow> error + json"
  PropertySearch :: "json \<Rightarrow> error + json"

definition execute_tool :: "tool_set \<Rightarrow> string \<Rightarrow> json \<Rightarrow> error + json" where
  "execute_tool tools tool_name args =
     (if tool_name = ''PlacesSearch'' then PlacesSearch tools args
      else if tool_name = ''BookingRequest'' then BookingRequest tools args
      else if tool_name = ''CallRequest'' then CallRequestTool tools args
      else if tool_name = ''MessageRequest'' then MessageRequest tools args
      else if tool_name = ''PropertySearch'' then PropertySearch tools args
      else Inl (Exc ValueError (''Unknown tool: '' @ tool_name)))"

text \<open>
  What one generation cycle meets outside the session: the outcome of
  \<open>prepare_prompt\<close>, of the first completion call and its stream, the filler phrase
  drawn from \<open>settings.wait_variants\<close>, \<open>json.loads\<close> and \<open>json.dumps\<close>, the tools,
  and the follow-up completion for the messages it is given.
\<close>

record cycle_env =
  prepare_prompt :: "error + message list"
  first_response :: "error + stream"
  wait_variant :: string
  json_loads :: "string \<Rightarrow> error + json"
  json_dumps :: "json \<Rightarrow> string"
  tools :: tool_set
  final_response :: "message list \<Rightarrow> error + stream"

text \<open>
  The body of \<open>for tool_call in current_tool_calls\<close>: parse, execute, and on any
  exception take the error payload as the result.
\<close>

definition tool_result :: "cycle_env \<Rightarrow> tool_call \<Rightarrow> json" where
  "tool_result env tool_call =
     (case (case json_loads env (tc_arguments tool_call) of
              Inl e \<Rightarrow> Inl e
            | Inr args \<Rightarrow> execute_tool (tools env) (tc_name tool_call) args) of
        Inr result \<Rightarrow> result
      | Inl e \<Rightarrow> JObj [(''error'', JStr (''Error executing tool: '' @ str_of_error e))])"

fun execute_tool_calls :: "cycle_env \<Rightarrow> tool_call list \<Rightarrow> message list \<Rightarrow> message list" where
  "execute_tool_calls env [] tool_results = tool_results"
| "execute_tool_calls env (tool_call # rest) tool_results =
     execute_tool_calls env rest
       (tool_results @
        [ToolMsg (tc_id tool_call) (tc_name tool_call)
           (json_dumps env (tool_result env tool_call))])"

text \<open>The messages of the follow-up completion call.\<close>

definition followup_messages ::
  "cycle_env \<Rightarrow> message list \<Rightarrow> string \<Rightarrow> tool_call list \<Rightarrow> message list" where
  "followup_messages env messages current_content current_tool_calls =
     messages @ [AssistantToolCalls current_content current_tool_calls] @
     execute_tool_calls env current_tool_calls []"

subsection \<open>draft_response\<close>

text \<open>
  The \<open>try\<close> block up to its last statement: the frames yielded, and the exception
  that interrupted it, if any.
\<close>

definition draft_response_body :: "cycle_env \<Rightarrow> int \<Rightarrow> ResponseResponse list \<times> error option" where
  "draft_response_body env rid =
     (case prepare_prompt env of
        Inl e \<Rightarrow> ([], Some e)
      | Inr messages \<Rightarrow>
          (case first_response env of
             Inl e \<Rightarrow> ([], Some e)
           | Inr response \<Rightarrow>
               (case stream_text rid (chunks response) [] [] of
                  (fs1, Inl e) \<Rightarrow> (fs1, Some e)
                | (fs1, Inr (current_tool_calls, current_content)) \<Rightarrow>
                    (case failure response of
                       Some e \<Rightarrow> (fs1, Some e)
                     | None \<Rightarrow>
                         if current_tool_calls = [] then (fs1, None)
                         else
                           (let fs2 = fs1 @ [frame rid (wait_variant env) False] in
                            case final_response env
                                   (followup_messages env messages current_content
                                      current_tool_calls) of
                              Inl e \<Rightarrow> (fs2, Some e)
                            | Inr final \<Rightarrow>
                                (case stream_final rid (chunks final) of
                                   (fs3, Some e) \<Rightarrow> (fs2 @ fs3, Some e)
                                 | (fs3, None) \<Rightarrow> (fs2 @ fs3, failure final)))))))"

definition apology :: string where
  "apology = ''I apologize, but I encountered an unexpected error. Could you please try again? ''"

text \<open>
  All the frames \<open>draft_response\<close> yields when it is run to its end: those of the body,
  then the completion signal, or the apology of the \<open>except Exception\<close> clause.
\<close>

definition draft_response :: "cycle_env \<Rightarrow> int \<Rightarrow> ResponseResponse list" where
  "draft_response env rid =
     (case draft_response_body env rid of
        (fs, None) \<Rightarrow> fs @ [frame rid '''' True]
      | (fs, Some e) \<Rightarrow> fs @ [frame rid apology True])"

subsection \<open>cleanup\<close>



text \<open>Sequencing of steps that may raise.\<close>

definition and_then :: "error + 'a \<Rightarrow> ('a \<Rightarrow> error + 'b) \<Rightarrow> error + 'b" where
  "and_then x f = (case x of Inl e \<Rightarrow> Inl e | Inr v \<Rightarrow> f v)"










subsection \<open>The earlier engine (app/llm.py)\<close>

text \<open>
  The tool loop of the superseded \<open>draft_response\<close> in app/llm.py, which knows two
  tools: on an exception it yields a filler frame and appends no tool message. The
  result is the frames yielded and the tool messages collected.
\<close>

definition execute_tool_legacy :: "tool_set \<Rightarrow> string \<Rightarrow> json \<Rightarrow> error + json" where
  "execute_tool_legacy known tool_name args =
     (if tool_name = ''PlacesSearch'' then PlacesSearch known args
      else if tool_name = ''BookingRequest'' then BookingRequest known args
      else Inl (Exc ValueError (''Unknown tool: '' @ tool_name)))"

fun execute_tool_calls_legacy ::
  "cycle_env \<Rightarrow> int \<Rightarrow> tool_call list \<Rightarrow> message list \<Rightarrow> ResponseResponse list \<times> message list" where
  "execute_tool_calls_legacy env rid [] tool_results = ([], tool_results)"
| "execute_tool_calls_legacy env rid (tool_call # rest) tool_results =
     (case and_then (json_loads env (tc_arguments tool_call))
             (execute_tool_legacy (tools env) (tc_name tool_call)) of
        Inr result \<Rightarrow>
          execute_tool_calls_legacy env rid rest
            (tool_results @
             [ToolMsg (tc_id tool_call) (tc_name tool_call) (json_dumps env result)])
      | Inl e \<Rightarrow>
          (let (fs, results) = execute_tool_calls_legacy env rid rest tool_results
           in (frame rid
                 ''I encountered an issue while searching. Let me try a different approach. ''
                 False # fs, results)))"

text \<open>A frame of the cycle for \<open>rid\<close> that does not close it.\<close>

definition partial_frame :: "int \<Rightarrow> ResponseResponse \<Rightarrow> bool" where
  "partial_frame rid f = (\<not> content_complete f \<and> response_id f = rid)"

subsection \<open>set_metadata\<close>

datatype utterance = Utterance string string

text \<open>An inbound frame, with the keys the handlers read; an absent key is \<open>None\<close>.\<close>

record call_info =
  ci_call_id :: "string option"
  retell_llm_dynamic_variables :: "(string \<times> string) list option"

record inbound =
  interaction_type :: "string option"
  in_response_id :: "int option"
  transcript :: "utterance list option"
  timestamp :: "int option"
  call :: "call_info option"

text \<open>
  \<open>set_metadata\<close>: the session after it and the exception it raises, if any
  (\<open>int(user_id)\<close> on a user id that is not a number; the assignments made before it
  stay). The refresh of the communications snapshot it starts is not modelled.
\<close>

definition set_metadata ::
  "(string \<Rightarrow> int option) \<Rightarrow> inbound \<Rightarrow> LlmClient \<Rightarrow> LlmClient \<times> error option" where
  "set_metadata to_int call_details self =
     (let c = (case call call_details of
                 None \<Rightarrow> \<lparr>ci_call_id = None, retell_llm_dynamic_variables = None\<rparr>
               | Some c \<Rightarrow> c);
          self1 = (if nonempty (ci_call_id c) then self\<lparr>call_id := ci_call_id c\<rparr> else self)
      in if nonempty (retell_llm_dynamic_variables c)
         then
           (let md = the (retell_llm_dynamic_variables c);
                self2 = self1\<lparr>metadata := Some md\<rparr>
            in case map_of md ''user_id'' of
                 None \<Rightarrow> (self2, None)
               | Some user_id \<Rightarrow>
                   if user_id = [] then (self2, None)
                   else (case to_int user_id of
                           None \<Rightarrow> (self2, Some (Exc ValueError
                                      ''invalid literal for int() with base 10''))
                         | Some n \<Rightarrow> (self2, None)))
         else (self1, None))"

section \<open>The connection (app/server.py)\<close>

text \<open>
  Frames written by the message handlers. The configuration frame and the pings of the
  heartbeat task are left out.
\<close>

datatype outbound = Response ResponseResponse | PingPong int

text \<open>
  The connection: \<open>latest_response_id\<close> is the handler's shared \<open>response_id\<close>
  variable; a task is a running \<open>handle_response_required\<close>, with the response id of
  its request and the frames its \<open>draft_response\<close> generator has still to yield (none
  once the task has ended); \<open>sent\<close> is what was written to the socket; \<open>alive\<close> tells
  whether the socket still accepts writes. A write on a dead socket raises, and every
  later write does too.
\<close>

record server =
  latest_response_id :: int
  llm_client :: LlmClient
  call_details_received :: bool
  tasks :: "(int \<times> ResponseResponse list) list"
  sent :: "outbound list"
  alive :: bool

definition connected :: server where
  "connected =
     \<lparr>latest_response_id = 0,
      llm_client = \<lparr>call_id = None, metadata = None, message_history = [], conversations = []\<rparr>,
      call_details_received = False, tasks = [], sent = [], alive = True\<rparr>"

text \<open>What a handler meets outside the connection when it runs.\<close>

record world =
  clock_hour :: nat
  drawn :: nat
  to_int :: "string \<Rightarrow> int option"
  cycle :: cycle_env

text \<open>\<open>websocket.send_json\<close>: nothing is written on a dead socket.\<close>

definition send_json :: "outbound \<Rightarrow> server \<Rightarrow> server" where
  "send_json f s = (if alive s then s\<lparr>sent := sent s @ [f]\<rparr> else s)"

definition error_response :: "int \<Rightarrow> string \<Rightarrow> outbound" where
  "error_response rid text =
     Response \<lparr>response_id = rid, content = text, content_complete = True, end_call = False\<rparr>"

text \<open>
  The \<open>except Exception\<close> clause of \<open>handle_response_required\<close>. It reads
  \<open>request.response_id\<close>: when the exception was raised before \<open>request\<close> was
  assigned, that read raises \<open>UnboundLocalError\<close>, which the inner \<open>except\<close> catches
  and prints, and no frame is written.
\<close>

definition response_fault :: "int option \<Rightarrow> server \<Rightarrow> server" where
  "response_fault request s =
     (case request of
        None \<Rightarrow> s
      | Some rid \<Rightarrow> send_json (error_response rid ''I encountered an error. Let me try again.'') s)"

text \<open>
  The start of \<open>handle_response_required\<close>, up to the first wait on the generator:
  the shared response id is assigned first, then the request is built from the frame's
  \<open>interaction_type\<close> and \<open>transcript\<close>; a missing key raises \<open>KeyError\<close>.
\<close>

definition start_response :: "world \<Rightarrow> inbound \<Rightarrow> server \<Rightarrow> server" where
  "start_response w request_json s =
     (case in_response_id request_json of
        None \<Rightarrow> response_fault None s
      | Some rid \<Rightarrow>
          (let s1 = s\<lparr>latest_response_id := rid\<rparr> in
           case interaction_type request_json of
             None \<Rightarrow> response_fault None s1
           | Some it \<Rightarrow>
               (case transcript request_json of
                  None \<Rightarrow> response_fault None s1
                | Some tr \<Rightarrow> s1\<lparr>tasks := tasks s1 @ [(rid, draft_response (cycle w) rid)]\<rparr>)))"

text \<open>
  One turn of the \<open>async for\<close> loop of task \<open>k\<close>: the generator yields its next frame;
  the task breaks when its request's id is below the shared id, and writes the frame
  otherwise. On a dead socket the write raises: the task ends in its \<open>except\<close>
  clause, whose own write fails as well.
\<close>

definition resume :: "nat \<Rightarrow> server \<Rightarrow> server" where
  "resume k s =
     (if k < length (tasks s) then
        (case tasks s ! k of
           (rid, []) \<Rightarrow> s
         | (rid, event # later) \<Rightarrow>
             if rid < latest_response_id s then s\<lparr>tasks := (tasks s)[k := (rid, [])]\<rparr>
             else if alive s
             then (send_json (Response event) s)\<lparr>tasks := (tasks s)[k := (rid, later)]\<rparr>
             else response_fault (Some rid) (s\<lparr>tasks := (tasks s)[k := (rid, [])]\<rparr>))
      else s)"

text \<open>The \<open>except Exception\<close> clause of \<open>handle_message\<close>.\<close>

definition message_fault :: "inbound \<Rightarrow> server \<Rightarrow> server" where
  "message_fault data s =
     send_json (error_response (case in_response_id data of None \<Rightarrow> 0 | Some r \<Rightarrow> r)
                  ''I encountered an error. Please try again.'') s"

definition handle_message :: "world \<Rightarrow> inbound \<Rightarrow> server \<Rightarrow> server" where
  "handle_message w data s =
     (case interaction_type data of
        None \<Rightarrow> message_fault data s
      | Some t \<Rightarrow>
          if t = ''call_details'' then
            (case set_metadata (to_int w) data (llm_client s) of
               (client, Some e) \<Rightarrow> message_fault data (s\<lparr>llm_client := client\<rparr>)
             | (client, None) \<Rightarrow>
                 (case draft_begin_message (clock_hour w) (drawn w) client of
                    Inl e \<Rightarrow>
                      message_fault data (s\<lparr>llm_client := client, call_details_received := True\<rparr>)
                  | Inr (client', first_event) \<Rightarrow>
                      send_json (Response first_event)
                        (s\<lparr>llm_client := client', call_details_received := True\<rparr>)))
          else if t = ''ping_pong'' then
            (case timestamp data of
               None \<Rightarrow> message_fault data s
             | Some ts \<Rightarrow> send_json (PingPong ts) s)
          else if t = ''update_only'' then s
          else if t \<in> set [''response_required'', ''reminder_required'']
          then start_response w data s
          else s)"

text \<open>
  What happens on the connection, one event at a time: a frame arrives and its handler
  starts, a running task takes its next turn, or the socket dies.
\<close>

datatype event = Receive inbound world | Resume nat | Disconnect

fun step :: "event \<Rightarrow> server \<Rightarrow> server" where
  "step (Receive data w) s = handle_message w data s"
| "step (Resume k) s = resume k s"
| "step Disconnect s = s\<lparr>alive := False\<rparr>"

fun run :: "event list \<Rightarrow> server \<Rightarrow> server" where
  "run [] s = s"
| "run (e # es) s = run es (step e s)"

text \<open>The shared response id after each event of a schedule.\<close>

fun latest_trace :: "event list \<Rightarrow> server \<Rightarrow> int list" where
  "latest_trace [] s = []"
| "latest_trace (e # es) s =
     latest_response_id (step e s) # latest_trace es (step e s)"

text \<open>
  Interaction requests: the frames that reach \<open>handle_response_required\<close>, and their
  response ids in arrival order.
\<close>

definition is_interaction :: "inbound \<Rightarrow> bool" where
  "is_interaction data =
     (interaction_type data = Some ''response_required'' \<or>
      interaction_type data = Some ''reminder_required'')"

fun request_ids :: "event list \<Rightarrow> int list" where
  "request_ids [] = []"
| "request_ids (Receive data w # es) =
     (case in_response_id data of
        Some rid \<Rightarrow> if is_interaction data then rid # request_ids es else request_ids es
      | None \<Rightarrow> request_ids es)"
| "request_ids (e # es) = request_ids es"

fun only_interactions :: "event list \<Rightarrow> bool" where
  "only_interactions [] = True"
| "only_interactions (Receive data w # es) = (is_interaction data \<and> only_interactions es)"
| "only_interactions (e # es) = only_interactions es"

text \<open>The response ids of the response frames written, in order.\<close>

fun response_ids :: "outbound list \<Rightarrow> int list" where
  "response_ids [] = []"
| "response_ids (Response f # fs) = response_id f # response_ids fs"
| "response_ids (PingPong ts # fs) = response_ids fs"

text \<open>
  The state the handlers keep between events: no task and no written frame is ahead of
  the shared response id, the pending frames of a task carry its request's id, and the
  ids written so far never step down.
\<close>

definition coherent :: "server \<Rightarrow> bool" where
  "coherent s =
     (list_all (\<lambda>(rid, pending). rid \<le> latest_response_id s \<and>
                  list_all (\<lambda>f. response_id f = rid) pending) (tasks s) \<and>
      list_all (\<lambda>i. i \<le> latest_response_id s) (response_ids (sent s)) \<and>
      sorted (response_ids (sent s)))"

text \<open>Every id the connection has met so far lies below \<open>r\<close>.\<close>

definition all_below :: "server \<Rightarrow> int \<Rightarrow> bool" where
  "all_below s r =
     (list_all (\<lambda>(rid, pending). rid < r) (tasks s) \<and>
      list_all (\<lambda>i. i < r) (response_ids (sent s)))"

section \<open>Example inputs\<close>

text \<open>
  A generation cycle whose model streams two text deltas and no tool call, a world built
  on it, and a well-formed interaction request with a given response id.
\<close>

definition sample_cycle :: cycle_env where
  "sample_cycle =
     \<lparr>prepare_prompt = Inr [Msg ''system'' ''prompt''],
      first_response =
        Inr (Stream [Chunk [Delta None (Some ''Hello'')], Chunk [Delta None (Some '' there'')]]
               None),
      wait_variant = ''Hold on, let me check.'',
      json_loads = (\<lambda>s. if s = ''{}'' then Inr (JObj []) else Inl (Exc ValueError ''Expecting value'')),
      json_dumps = (\<lambda>j. ''null''),
      tools = \<lparr>PlacesSearch = (\<lambda>a. Inr (JArr [JStr ''Cafe''])),
               BookingRequest = (\<lambda>a. Inr JNull), CallRequestTool = (\<lambda>a. Inr JNull),
               MessageRequest = (\<lambda>a. Inr JNull), PropertySearch = (\<lambda>a. Inr JNull)\<rparr>,
      final_response = (\<lambda>m. Inr (Stream [] None))\<rparr>"

definition sample_world :: world where
  "sample_world =
     \<lparr>clock_hour = 9, drawn = 0,
      to_int = (\<lambda>s. if s = ''42'' then Some 42 else None),
      cycle = sample_cycle\<rparr>"

definition sample_request :: "int \<Rightarrow> inbound" where
  "sample_request rid =
     \<lparr>interaction_type = Some ''response_required'', in_response_id = Some rid,
      transcript = Some [Utterance ''user'' ''Hi''], timestamp = None, call = None\<rparr>"

text \<open>
  A generation cycle whose model asks for two tool calls, the first with arguments that
  do not parse. Its follow-up completion answers only when it is given the prompt, the
  assistant message and one tool message for each of the two calls.
\<close>

definition tool_cycle :: cycle_env where
  "tool_cycle =
     \<lparr>prepare_prompt = Inr [Msg ''system'' ''prompt''],
      first_response =
        Inr (Stream
               [tool_chunk (ToolCallDelta (Some 0) (Some ''call_1'')
                              (Some (FunctionDelta (Some ''PlacesSearch'') (Some ''{'')))),
                tool_chunk (ToolCallDelta (Some 1) (Some ''call_2'')
                              (Some (FunctionDelta (Some ''PlacesSearch'') (Some ''{}''))))]
               None),
      wait_variant = ''Hold on, let me check.'',
      json_loads = (\<lambda>s. if s = ''{}'' then Inr (JObj []) else Inl (Exc ValueError ''Expecting value'')),
      json_dumps = (\<lambda>j. if j = JArr [JStr ''Cafe''] then ''[Cafe]'' else ''{error}''),
      tools = \<lparr>PlacesSearch = (\<lambda>a. Inr (JArr [JStr ''Cafe''])),
               BookingRequest = (\<lambda>a. Inr JNull), CallRequestTool = (\<lambda>a. Inr JNull),
               MessageRequest = (\<lambda>a. Inr JNull), PropertySearch = (\<lambda>a. Inr JNull)\<rparr>,
      final_response =
        (\<lambda>ms. if ms = [Msg ''system'' ''prompt'',
                        AssistantToolCalls []
                          [ToolCall (Some ''call_1'') ''PlacesSearch'' ''{'',
                           ToolCall (Some ''call_2'') ''PlacesSearch'' ''{}''],
                        ToolMsg (Some ''call_1'') ''PlacesSearch'' ''{error}'',
                        ToolMsg (Some ''call_2'') ''PlacesSearch'' ''[Cafe]'']
              then Inr (Stream [Chunk [Delta None (Some ''Done.'')]] None)
              else Inl (Exc OtherException ''unexpected messages''))\<rparr>"






section \<open>Properties\<close>

lemma safe_int_defaults:
  "safe_int parse JNull d = Inr d \<and>
   (parse s = None \<longrightarrow> safe_int parse (JStr s) d = Inr d) \<and>
   safe_int parse (JArr xs) d = Inr d \<and>
   safe_int parse (JObj kvs) d = Inr d \<and>
   safe_int parse (JFloat NaN) d = Inr d"
  by (simp add: safe_int_def is_value_or_type_error_def)

lemma safe_float_defaults:
  "safe_float parse JNull d = Inr d \<and>
   (parse s = None \<longrightarrow> safe_float parse (JStr s) d = Inr d) \<and>
   safe_float parse (JArr xs) d = Inr d \<and>
   safe_float parse (JObj kvs) d = Inr d"
  by (simp add: safe_float_def is_value_or_type_error_def)

lemma safe_float_overflow_escapes:
  "float_of_int n = Inl (Exc OverflowError m) \<Longrightarrow>
     safe_float parse (JInt n) d = Inl (Exc OverflowError m)"
  by (simp add: safe_float_def is_value_or_type_error_def)

text \<open>
  C10. The numeric field parsers are meant never to raise. They catch \<open>ValueError\<close> and
  \<open>TypeError\<close> only: an infinite float reaches \<open>int()\<close> in \<open>safe_int\<close> and raises
  \<open>OverflowError\<close>, whatever the default, while \<open>None\<close>, a non-numeric string and a
  container do give the default.
\<close>

theorem safe_int_infinity_raises:
  "safe_int parse (JFloat PosInf) d =
     Inl (Exc OverflowError ''cannot convert float infinity to integer'')"
  by (simp add: safe_int_def is_value_or_type_error_def)

lemma sublist_mid2: "sublist x (a @ b @ x @ c)"
  by (metis append_assoc sublist_appendI)

lemma sublist_mid3: "sublist x (a @ b @ c @ x @ d)"
  by (metis append_assoc sublist_appendI)

lemma sublist_mid4: "sublist x (a @ b @ c @ d @ x @ e)"
  by (metis append_assoc sublist_appendI)

lemma choice_mem: "xs \<noteq> [] \<Longrightarrow> \<exists>g. choice r xs = Inr g \<and> g \<in> set xs"
  by (simp add: choice_def)

lemma onboarding_contains_bot:
  "g \<in> set (onboarding_greeting tg un bn) \<Longrightarrow> sublist bn g"
  unfolding onboarding_greeting_def
  by (auto simp only: list.set insert_iff empty_iff intro: sublist_mid3 sublist_mid4)

lemma contextual_contains_user:
  "g \<in> set (contextual_greeting tg un) \<Longrightarrow> sublist un g"
  unfolding contextual_greeting_def
  by (auto simp only: list.set insert_iff empty_iff intro: sublist_appendI sublist_mid2)

lemma custom_wait_variants_nonempty: "custom_wait_variants tg \<noteq> []"
  by (simp add: custom_wait_variants_def)

lemma onboarding_greeting_nonempty: "onboarding_greeting tg un bn \<noteq> []"
  by (simp add: onboarding_greeting_def)

lemma contextual_greeting_nonempty: "contextual_greeting tg un \<noteq> []"
  by (simp add: contextual_greeting_def)

lemma select_greeting_absent:
  assumes "metadata_absent self"
  shows "\<exists>g. select_greeting hour r self = Inr g \<and>
             g \<in> set (custom_wait_variants (get_time_based_greeting hour))"
  using assms choice_mem [OF custom_wait_variants_nonempty]
  by (auto simp: select_greeting_def metadata_absent_def Let_def split: option.splits)

lemma select_greeting_onboarding:
  assumes "metadata self = Some md" and "md \<noteq> []"
    and "map_of md ''user_name'' = Some un" and "un \<noteq> []"
    and "map_of md ''first_interaction'' = Some ''true''"
  shows "\<exists>g. select_greeting hour r self = Inr g \<and>
             g \<in> set (onboarding_greeting (get_time_based_greeting hour) un
                         (dict_get md ''bot_name'' ''Drew''))"
  using assms choice_mem [OF onboarding_greeting_nonempty]
  by (simp add: select_greeting_def dict_get_def Let_def)

lemma select_greeting_contextual:
  assumes "metadata self = Some md" and "md \<noteq> []"
    and "map_of md ''user_name'' = Some un" and "un \<noteq> []"
    and "map_of md ''first_interaction'' \<noteq> Some ''true''"
  shows "\<exists>g. select_greeting hour r self = Inr g \<and>
             g \<in> set (contextual_greeting (get_time_based_greeting hour) un)"
  using assms choice_mem [OF contextual_greeting_nonempty]
  by (simp add: select_greeting_def dict_get_def Let_def)

text \<open>
  C7 (as amended). \<open>draft_begin_message\<close> returns one complete frame whose text is:
  one of the generic greetings built on the time-of-day phrase when the metadata is
  absent; one of the onboarding greetings, which contains the configured assistant name
  (\<open>bot_name\<close>, \<open>Drew\<close> when not configured), when the metadata is present with
  \<open>first_interaction = "true"\<close> and a user name is set; one of the contextual greetings,
  which contains the user name, when the metadata is present without that flag and a
  user name is set.
\<close>

theorem draft_begin_message_selection:
  "(metadata_absent self \<longrightarrow>
      (\<exists>g self'. draft_begin_message hour r self =
           Inr (self', \<lparr>response_id = 0, content = g, content_complete = True, end_call = False\<rparr>) \<and>
         g \<in> set (custom_wait_variants (get_time_based_greeting hour)))) \<and>
   (\<forall>md un. metadata self = Some md \<and> md \<noteq> [] \<and>
        map_of md ''user_name'' = Some un \<and> un \<noteq> [] \<and>
        map_of md ''first_interaction'' = Some ''true'' \<longrightarrow>
      (\<exists>g self'. draft_begin_message hour r self =
           Inr (self', \<lparr>response_id = 0, content = g, content_complete = True, end_call = False\<rparr>) \<and>
         g \<in> set (onboarding_greeting (get_time_based_greeting hour) un
                     (dict_get md ''bot_name'' ''Drew'')) \<and>
         sublist (dict_get md ''bot_name'' ''Drew'') g)) \<and>
   (\<forall>md un. metadata self = Some md \<and> md \<noteq> [] \<and>
        map_of md ''user_name'' = Some un \<and> un \<noteq> [] \<and>
        map_of md ''first_interaction'' \<noteq> Some ''true'' \<longrightarrow>
      (\<exists>g self'. draft_begin_message hour r self =
           Inr (self', \<lparr>response_id = 0, content = g, content_complete = True, end_call = False\<rparr>) \<and>
         g \<in> set (contextual_greeting (get_time_based_greeting hour) un) \<and>
         sublist un g))"
proof (intro conjI allI impI)
  assume "metadata_absent self"
  from select_greeting_absent [OF this, of hour r]
  show "\<exists>g self'. draft_begin_message hour r self =
           Inr (self', \<lparr>response_id = 0, content = g, content_complete = True, end_call = False\<rparr>) \<and>
         g \<in> set (custom_wait_variants (get_time_based_greeting hour))"
    by (auto simp: draft_begin_message_def)
next
  fix md un
  assume "metadata self = Some md \<and> md \<noteq> [] \<and>
        map_of md ''user_name'' = Some un \<and> un \<noteq> [] \<and>
        map_of md ''first_interaction'' = Some ''true''"
  then obtain g where g: "select_greeting hour r self = Inr g"
    "g \<in> set (onboarding_greeting (get_time_based_greeting hour) un
                     (dict_get md ''bot_name'' ''Drew''))"
    using select_greeting_onboarding [of self md un hour r] by blast
  from g(2) have "sublist (dict_get md ''bot_name'' ''Drew'') g"
    by (rule onboarding_contains_bot)
  with g show "\<exists>g self'. draft_begin_message hour r self =
           Inr (self', \<lparr>response_id = 0, content = g, content_complete = True, end_call = False\<rparr>) \<and>
         g \<in> set (onboarding_greeting (get_time_based_greeting hour) un
                     (dict_get md ''bot_name'' ''Drew'')) \<and>
         sublist (dict_get md ''bot_name'' ''Drew'') g"
    by (auto simp: draft_begin_message_def)
next
  fix md un
  assume "metadata self = Some md \<and> md \<noteq> [] \<and>
        map_of md ''user_name'' = Some un \<and> un \<noteq> [] \<and>
        map_of md ''first_interaction'' \<noteq> Some ''true''"
  then obtain g where g: "select_greeting hour r self = Inr g"
    "g \<in> set (contextual_greeting (get_time_based_greeting hour) un)"
    using select_greeting_contextual [of self md un hour r] by blast
  from g(2) have "sublist un g"
    by (rule contextual_contains_user)
  with g show "\<exists>g self'. draft_begin_message hour r self =
           Inr (self', \<lparr>response_id = 0, content = g, content_complete = True, end_call = False\<rparr>) \<and>
         g \<in> set (contextual_greeting (get_time_based_greeting hour) un) \<and>
         sublist un g"
    by (auto simp: draft_begin_message_def)
qed

theorem draft_begin_message_selection_witness:
  "(\<exists>g self'. draft_begin_message 9 3
        \<lparr>call_id = None, metadata = None, message_history = [], conversations = []\<rparr> =
        Inr (self', \<lparr>response_id = 0, content = g, content_complete = True, end_call = False\<rparr>) \<and>
      g \<in> set (custom_wait_variants ''Good morning'')) \<and>
   (\<exists>g self'. draft_begin_message 9 3
        \<lparr>call_id = None,
         metadata = Some [(''user_name'', ''Ada''), (''first_interaction'', ''true''),
                          (''bot_name'', ''Max'')],
         message_history = [], conversations = []\<rparr> =
        Inr (self', \<lparr>response_id = 0, content = g, content_complete = True, end_call = False\<rparr>) \<and>
      sublist ''Max'' g) \<and>
   (\<exists>g self'. draft_begin_message 14 5
        \<lparr>call_id = None, metadata = Some [(''user_name'', ''Ada'')],
         message_history = [], conversations = []\<rparr> =
        Inr (self', \<lparr>response_id = 0, content = g, content_complete = True, end_call = False\<rparr>) \<and>
      sublist ''Ada'' g)"
proof (intro conjI)
  let ?A = "\<lparr>call_id = None, metadata = None, message_history = [], conversations = []\<rparr>"
  have "metadata_absent ?A"
    by (simp add: metadata_absent_def)
  moreover have "get_time_based_greeting 9 = ''Good morning''"
    by (simp add: get_time_based_greeting_def)
  ultimately show "\<exists>g self'. draft_begin_message 9 3 ?A =
        Inr (self', \<lparr>response_id = 0, content = g, content_complete = True, end_call = False\<rparr>) \<and>
      g \<in> set (custom_wait_variants ''Good morning'')"
    using draft_begin_message_selection [of ?A 9 3] by metis
next
  let ?md = "[(''user_name'', ''Ada''), (''first_interaction'', ''true''), (''bot_name'', ''Max'')]"
  let ?B = "\<lparr>call_id = None, metadata = Some ?md, message_history = [], conversations = []\<rparr>"
  have h: "metadata ?B = Some ?md \<and> ?md \<noteq> [] \<and> map_of ?md ''user_name'' = Some ''Ada'' \<and>
        ''Ada'' \<noteq> [] \<and> map_of ?md ''first_interaction'' = Some ''true''"
    by simp
  have b: "dict_get ?md ''bot_name'' ''Drew'' = ''Max''"
    by (simp add: dict_get_def)
  from draft_begin_message_selection [of ?B 9 3] h
  have "\<exists>g self'. draft_begin_message 9 3 ?B =
        Inr (self', \<lparr>response_id = 0, content = g, content_complete = True, end_call = False\<rparr>) \<and>
      g \<in> set (onboarding_greeting (get_time_based_greeting 9) ''Ada''
                  (dict_get ?md ''bot_name'' ''Drew'')) \<and>
      sublist (dict_get ?md ''bot_name'' ''Drew'') g"
    by blast
  then show "\<exists>g self'. draft_begin_message 9 3 ?B =
        Inr (self', \<lparr>response_id = 0, content = g, content_complete = True, end_call = False\<rparr>) \<and>
      sublist ''Max'' g"
    unfolding b by blast
next
  let ?md = "[(''user_name'', ''Ada'')]"
  let ?C = "\<lparr>call_id = None, metadata = Some ?md, message_history = [], conversations = []\<rparr>"
  have h: "metadata ?C = Some ?md \<and> ?md \<noteq> [] \<and> map_of ?md ''user_name'' = Some ''Ada'' \<and>
        ''Ada'' \<noteq> [] \<and> map_of ?md ''first_interaction'' \<noteq> Some ''true''"
    by simp
  from draft_begin_message_selection [of ?C 14 5] h
  have "\<exists>g self'. draft_begin_message 14 5 ?C =
        Inr (self', \<lparr>response_id = 0, content = g, content_complete = True, end_call = False\<rparr>) \<and>
      g \<in> set (contextual_greeting (get_time_based_greeting 14) ''Ada'') \<and>
      sublist ''Ada'' g"
    by blast
  then show "\<exists>g self'. draft_begin_message 14 5 ?C =
        Inr (self', \<lparr>response_id = 0, content = g, content_complete = True, end_call = False\<rparr>) \<and>
      sublist ''Ada'' g"
    by blast
qed

text \<open>
  C7 as stated fails when the first-interaction flag is set but no user name is: the
  greeting then comes from the stock opening lines, which name \<open>Drew\<close> whatever
  \<open>bot_name\<close> is configured.
\<close>

theorem draft_begin_message_flag_without_user_name:
  "draft_begin_message 9 0
     \<lparr>call_id = None,
      metadata = Some [(''first_interaction'', ''true''), (''bot_name'', ''Max'')],
      message_history = [], conversations = []\<rparr> =
   Inr (\<lparr>call_id = None,
         metadata = Some [(''first_interaction'', ''true''), (''bot_name'', ''Max'')],
         message_history =
           [Msg ''assistant''
              ''Hi, I'm Drew, your virtual real estate assistant. How can I help you today?''],
         conversations = []\<rparr>,
        \<lparr>response_id = 0,
         content = ''Hi, I'm Drew, your virtual real estate assistant. How can I help you today?'',
         content_complete = True, end_call = False\<rparr>) \<and>
   \<not> sublist ''Max''
       ''Hi, I'm Drew, your virtual real estate assistant. How can I help you today?''"
  by (simp add: draft_begin_message_def select_greeting_def dict_get_def choice_def
      opening_lines_def sublist_Cons_right)

text \<open>
  C8. With the requested time parsed, \<open>CallRequest.execute\<close> posts the call exactly
  when the date of the requested time is today's or tomorrow's, and then returns what
  the backend's answer gives; for any other date it raises the specific
  \<open>ValueError\<close> of the validation and posts nothing.
\<close>

theorem CallRequest_execute_validation:
  assumes "fromisoformat (call_time self) = Some dt"
  shows "(date_of dt = date_of now \<or> date_of dt = date_of now + 1 \<longrightarrow>
            (\<exists>payload. cd_call_time payload = dt \<and>
               CallRequest_execute fromisoformat py_str post now self user_id =
                 ([payload],
                  (case post payload of
                     Inl e \<Rightarrow> Inl e
                   | Inr (status, body) \<Rightarrow> call_response py_str status body)))) \<and>
         (date_of dt \<noteq> date_of now \<and> date_of dt \<noteq> date_of now + 1 \<longrightarrow>
            CallRequest_execute fromisoformat py_str post now self user_id =
              ([], Inl call_time_error))"
  using assms
  by (auto simp: CallRequest_execute_def Let_def date_of_def add_days_def
      split: sum.splits prod.splits)

theorem CallRequest_execute_validation_witness:
  "(\<exists>payload. cd_call_time payload = \<lparr>ordinal = 739320, time_of_day = 50400\<rparr> \<and>
      CallRequest_execute
        (\<lambda>s. if s = ''2025-03-10T14:00:00'' then Some \<lparr>ordinal = 739320, time_of_day = 50400\<rparr>
             else None)
        (\<lambda>j. ''message'') (\<lambda>p. Inr (202, JObj [(''status'', JStr ''scheduled'')]))
        \<lparr>ordinal = 739320, time_of_day = 36000\<rparr>
        \<lparr>contact_name = ''Ada'', discussion_points = None, call_time = ''2025-03-10T14:00:00''\<rparr>
        (Some ''7'') =
      ([payload], Inr (JObj [(''status'', JStr ''scheduled'')]))) \<and>
   (\<exists>payload. cd_call_time payload = \<lparr>ordinal = 739321, time_of_day = 32400\<rparr> \<and>
      CallRequest_execute
        (\<lambda>s. if s = ''2025-03-11T09:00:00'' then Some \<lparr>ordinal = 739321, time_of_day = 32400\<rparr>
             else None)
        (\<lambda>j. ''message'') (\<lambda>p. Inr (202, JObj [(''status'', JStr ''scheduled'')]))
        \<lparr>ordinal = 739320, time_of_day = 36000\<rparr>
        \<lparr>contact_name = ''Ada'', discussion_points = None, call_time = ''2025-03-11T09:00:00''\<rparr>
        (Some ''7'') =
      ([payload], Inr (JObj [(''status'', JStr ''scheduled'')]))) \<and>
   CallRequest_execute
     (\<lambda>s. if s = ''2025-03-13T09:00:00'' then Some \<lparr>ordinal = 739323, time_of_day = 32400\<rparr>
          else None)
     (\<lambda>j. ''message'') (\<lambda>p. Inr (202, JObj [(''status'', JStr ''scheduled'')]))
     \<lparr>ordinal = 739320, time_of_day = 36000\<rparr>
     \<lparr>contact_name = ''Ada'', discussion_points = None, call_time = ''2025-03-13T09:00:00''\<rparr>
     (Some ''7'') =
   ([], Inl (Exc ValueError ''Call time must be either now (today) or the next day.''))"
proof (intro conjI)
  let ?now = "\<lparr>ordinal = 739320, time_of_day = 36000\<rparr>"
  let ?post = "\<lambda>p::call_data. Inr (202::int, JObj [(''status'', JStr ''scheduled'')]) :: error + int \<times> json"
  let ?str = "\<lambda>j::json. ''message''"
  {
    let ?f = "\<lambda>s. if s = ''2025-03-10T14:00:00''
                   then Some \<lparr>ordinal = 739320, time_of_day = 50400\<rparr> else None"
    let ?r = "\<lparr>contact_name = ''Ada'', discussion_points = None,
               call_time = ''2025-03-10T14:00:00''\<rparr>"
    have "?f (call_time ?r) = Some \<lparr>ordinal = 739320, time_of_day = 50400\<rparr>"
      by simp
    from this CallRequest_execute_validation [where fromisoformat = ?f and self = ?r
        and dt = "\<lparr>ordinal = 739320, time_of_day = 50400\<rparr>" and now = ?now and py_str = ?str and post = ?post
        and user_id = "Some ''7''"]
    show "\<exists>payload. cd_call_time payload = \<lparr>ordinal = 739320, time_of_day = 50400\<rparr> \<and>
      CallRequest_execute ?f ?str ?post ?now ?r (Some ''7'') =
      ([payload], Inr (JObj [(''status'', JStr ''scheduled'')]))"
      by (simp add: date_of_def call_response_def)
  }
  {
    let ?f = "\<lambda>s. if s = ''2025-03-11T09:00:00''
                   then Some \<lparr>ordinal = 739321, time_of_day = 32400\<rparr> else None"
    let ?r = "\<lparr>contact_name = ''Ada'', discussion_points = None,
               call_time = ''2025-03-11T09:00:00''\<rparr>"
    have "?f (call_time ?r) = Some \<lparr>ordinal = 739321, time_of_day = 32400\<rparr>"
      by simp
    from this CallRequest_execute_validation [where fromisoformat = ?f and self = ?r
        and dt = "\<lparr>ordinal = 739321, time_of_day = 32400\<rparr>" and now = ?now and py_str = ?str and post = ?post
        and user_id = "Some ''7''"]
    show "\<exists>payload. cd_call_time payload = \<lparr>ordinal = 739321, time_of_day = 32400\<rparr> \<and>
      CallRequest_execute ?f ?str ?post ?now ?r (Some ''7'') =
      ([payload], Inr (JObj [(''status'', JStr ''scheduled'')]))"
      by (simp add: date_of_def call_response_def)
  }
  {
    let ?f = "\<lambda>s. if s = ''2025-03-13T09:00:00''
                   then Some \<lparr>ordinal = 739323, time_of_day = 32400\<rparr> else None"
    let ?r = "\<lparr>contact_name = ''Ada'', discussion_points = None,
               call_time = ''2025-03-13T09:00:00''\<rparr>"
    have "?f (call_time ?r) = Some \<lparr>ordinal = 739323, time_of_day = 32400\<rparr>"
      by simp
    from this CallRequest_execute_validation [where fromisoformat = ?f and self = ?r
        and dt = "\<lparr>ordinal = 739323, time_of_day = 32400\<rparr>" and now = ?now and py_str = ?str and post = ?post
        and user_id = "Some ''7''"]
    show "CallRequest_execute ?f ?str ?post ?now ?r (Some ''7'') =
       ([], Inl (Exc ValueError ''Call time must be either now (today) or the next day.''))"
      by (simp add: date_of_def call_time_error_def)
  }
qed

subsection \<open>Accumulation of tool-call deltas\<close>

lemma last_name_Nil [simp]: "last_name n0 [] = n0"
  by (simp add: last_name_def)

lemma last_name_Cons:
  "last_name n0 (d # ds) = last_name (if delta_name d = [] then n0 else delta_name d) ds"
  by (simp add: last_name_def split: list.splits)

lemma update_at_in_range:
  "k < length xs \<Longrightarrow> update_at xs (Some (int k)) f = Inr (xs[k := f (xs ! k)])"
  by (simp add: update_at_def py_position_def)

lemma list_update_same: "xs ! k = v \<Longrightarrow> xs = xs[k := v]"
  by (metis list_update_id)

lemma accumulate_existing_step:
  assumes "tcd_index d = Some (int k)" and "tcd_function d \<noteq> None" and "k < length xs"
    and "xs ! k = ToolCall i n a"
  shows "accumulate_tool_call xs d =
     Inr (xs[k := ToolCall i (if delta_name d = [] then n else delta_name d)
                   (a @ delta_arguments d)])"
  using assms
  by (auto simp: accumulate_tool_call_def update_at_in_range nonempty_def delta_name_def
      delta_arguments_def Let_def list_update_same split: option.splits)

lemma accumulate_existing:
  assumes "\<forall>d \<in> set ds. tcd_index d = Some (int k) \<and> tcd_function d \<noteq> None"
    and "k < length xs" and "xs ! k = ToolCall i n a"
  shows "accumulate_tool_calls xs ds =
     Inr (xs[k := ToolCall i (last_name n ds) (a @ concat (map delta_arguments ds))])"
  using assms
proof (induction ds arbitrary: xs n a)
  case Nil
  then show ?case by (simp add: list_update_same)
next
  case (Cons d ds)
  let ?n = "if delta_name d = [] then n else delta_name d"
  let ?xs = "xs[k := ToolCall i ?n (a @ delta_arguments d)]"
  have step: "accumulate_tool_call xs d = Inr ?xs"
    using Cons.prems by (intro accumulate_existing_step) auto
  have "accumulate_tool_calls ?xs ds =
     Inr (?xs[k := ToolCall i (last_name ?n ds)
                     ((a @ delta_arguments d) @ concat (map delta_arguments ds))])"
    using Cons.prems by (intro Cons.IH) auto
  with step show ?case
    by (simp add: last_name_Cons)
qed

lemma accumulate_new_step:
  assumes "tcd_index d = Some (int (length xs))" and "tcd_function d \<noteq> None"
  shows "accumulate_tool_call xs d =
     Inr (xs @ [ToolCall (tcd_id d) (delta_name d) (delta_arguments d)])"
  using assms
  by (auto simp: accumulate_tool_call_def update_at_def py_position_def nonempty_def
      delta_name_def delta_arguments_def Let_def nth_append split: option.splits)

lemma stream_text_tool_chunk:
  "stream_text rid (tool_chunk d # cs) cur text =
     (case accumulate_tool_call cur d of
        Inl e \<Rightarrow> ([], Inl e)
      | Inr cur' \<Rightarrow> stream_text rid cs cur' text)"
  by (simp add: tool_chunk_def nonempty_def split: sum.splits)

lemma stream_text_existing:
  assumes "\<forall>d \<in> set ds. tcd_index d = Some (int k) \<and> tcd_function d \<noteq> None"
    and "k < length xs" and "xs ! k = ToolCall i n a"
  shows "stream_text rid (map tool_chunk ds) xs text =
     ([], Inr (xs[k := ToolCall i (last_name n ds) (a @ concat (map delta_arguments ds))],
               text))"
  using assms
proof (induction ds arbitrary: xs n a)
  case Nil
  then show ?case by (simp add: list_update_same [symmetric])
next
  case (Cons d ds)
  let ?n = "if delta_name d = [] then n else delta_name d"
  let ?xs = "xs[k := ToolCall i ?n (a @ delta_arguments d)]"
  have step: "accumulate_tool_call xs d = Inr ?xs"
    using Cons.prems by (intro accumulate_existing_step) auto
  have "stream_text rid (map tool_chunk ds) ?xs text =
     ([], Inr (?xs[k := ToolCall i (last_name ?n ds)
                     ((a @ delta_arguments d) @ concat (map delta_arguments ds))], text))"
    using Cons.prems by (intro Cons.IH) auto
  with step show ?case
    by (simp add: last_name_Cons stream_text_tool_chunk del: stream_text.simps(2))
qed

lemma stream_text_new:
  assumes "\<forall>d \<in> set ds. tcd_index d = Some (int (length cur)) \<and> tcd_function d \<noteq> None"
    and "ds \<noteq> []"
  shows "stream_text rid (map tool_chunk ds) cur text =
     ([], Inr (cur @ [ToolCall (tcd_id (hd ds)) (last_name [] ds)
                        (concat (map delta_arguments ds))], text))"
proof (cases ds)
  case Nil
  with assms show ?thesis by simp
next
  case (Cons d rest)
  let ?xs = "cur @ [ToolCall (tcd_id d) (delta_name d) (delta_arguments d)]"
  have step: "accumulate_tool_call cur d = Inr ?xs"
    using assms Cons by (intro accumulate_new_step) auto
  have "stream_text rid (map tool_chunk rest) ?xs text =
     ([], Inr (?xs[length cur := ToolCall (tcd_id d) (last_name (delta_name d) rest)
        (delta_arguments d @ concat (map delta_arguments rest))], text))"
    using assms Cons by (intro stream_text_existing) auto
  with step Cons show ?thesis
    by (simp add: last_name_Cons stream_text_tool_chunk del: stream_text.simps(2))
qed

text \<open>
  C4 (as amended). When one tool call arrives as deltas \<open>ds\<close>, one per chunk, all with
  the index of a new record, the loop ends with one more record whose argument string is
  the concatenation of all the argument fragments and whose name is the last non-empty
  name fragment (the name is assigned, not appended: it is the full name when it arrives
  in one delta). The tool is then invoked under that name with the parse of the whole
  argument string.
\<close>

theorem tool_call_deltas_reassembled:
  assumes "\<forall>d \<in> set ds. tcd_index d = Some (int (length cur)) \<and> tcd_function d \<noteq> None"
    and "ds \<noteq> []"
  shows "stream_text rid (map tool_chunk ds) cur text =
           ([], Inr (cur @ [ToolCall (tcd_id (hd ds)) (last_name [] ds)
                              (concat (map delta_arguments ds))], text)) \<and>
         (\<forall>args. json_loads env (concat (map delta_arguments ds)) = Inr args \<longrightarrow>
            tool_result env (ToolCall (tcd_id (hd ds)) (last_name [] ds)
                               (concat (map delta_arguments ds))) =
              (case execute_tool (tools env) (last_name [] ds) args of
                 Inr result \<Rightarrow> result
               | Inl e \<Rightarrow> JObj [(''error'', JStr (''Error executing tool: '' @ str_of_error e))]))"
  using stream_text_new [OF assms]
  by (simp add: tool_result_def)

text \<open>
  C4 as stated fails for a name split over two deltas: the second fragment replaces the
  first.
\<close>

theorem split_name_not_reassembled:
  "stream_text 1
     [tool_chunk (ToolCallDelta (Some 0) (Some ''call_1'')
                    (Some (FunctionDelta (Some ''Places'') (Some '''')))),
      tool_chunk (ToolCallDelta (Some 0) None
                    (Some (FunctionDelta (Some ''Search'') (Some ''{}''))))]
     [] [] =
   ([], Inr ([ToolCall (Some ''call_1'') ''Search'' ''{}''], []))"
  by (simp add: tool_chunk_def nonempty_def accumulate_tool_call_def update_at_def
      py_position_def)

theorem tool_call_deltas_reassembled_witness:
  "stream_text 1
     (map tool_chunk
        [ToolCallDelta (Some 0) (Some ''call_1'') (Some (FunctionDelta (Some ''PlacesSearch'') None)),
         ToolCallDelta (Some 0) None (Some (FunctionDelta None (Some ''{''))),
         ToolCallDelta (Some 0) None (Some (FunctionDelta None (Some ''}'')))])
     [] [] =
   ([], Inr ([ToolCall (Some ''call_1'') ''PlacesSearch'' ''{}''], [])) \<and>
   tool_result
     \<lparr>prepare_prompt = Inr [], first_response = Inr (Stream [] None), wait_variant = ''Hold on.'',
      json_loads = (\<lambda>s. if s = ''{}'' then Inr (JObj []) else Inl (Exc ValueError ''bad'')),
      json_dumps = (\<lambda>j. ''dumped''),
      tools = \<lparr>PlacesSearch = (\<lambda>a. Inr (JArr [JStr ''Cafe''])),
               BookingRequest = (\<lambda>a. Inr JNull), CallRequestTool = (\<lambda>a. Inr JNull),
               MessageRequest = (\<lambda>a. Inr JNull), PropertySearch = (\<lambda>a. Inr JNull)\<rparr>,
      final_response = (\<lambda>m. Inr (Stream [] None))\<rparr>
     (ToolCall (Some ''call_1'') ''PlacesSearch'' ''{}'') =
   JArr [JStr ''Cafe'']"
proof -
  let ?ds = "[ToolCallDelta (Some 0) (Some ''call_1'') (Some (FunctionDelta (Some ''PlacesSearch'') None)),
         ToolCallDelta (Some 0) None (Some (FunctionDelta None (Some ''{''))),
         ToolCallDelta (Some 0) None (Some (FunctionDelta None (Some ''}'')))]"
  let ?env = "\<lparr>prepare_prompt = Inr [], first_response = Inr (Stream [] None), wait_variant = ''Hold on.'',
      json_loads = (\<lambda>s. if s = ''{}'' then Inr (JObj []) else Inl (Exc ValueError ''bad'')),
      json_dumps = (\<lambda>j. ''dumped''),
      tools = \<lparr>PlacesSearch = (\<lambda>a. Inr (JArr [JStr ''Cafe''])),
               BookingRequest = (\<lambda>a. Inr JNull), CallRequestTool = (\<lambda>a. Inr JNull),
               MessageRequest = (\<lambda>a. Inr JNull), PropertySearch = (\<lambda>a. Inr JNull)\<rparr>,
      final_response = (\<lambda>m. Inr (Stream [] None))\<rparr>"
  have h1: "\<forall>d \<in> set ?ds. tcd_index d = Some (int (length ([]::tool_call list))) \<and>
              tcd_function d \<noteq> None"
    by simp
  have h2: "?ds \<noteq> []"
    by simp
  have n: "last_name [] ?ds = ''PlacesSearch''"
    by (simp add: last_name_def delta_name_def)
  have a: "concat (map delta_arguments ?ds) = ''{}''"
    by (simp add: delta_arguments_def)
  have l: "json_loads ?env ''{}'' = Inr (JObj [])"
    by simp
  from tool_call_deltas_reassembled [OF h1 h2, of 1 "[]" ?env] n a l
  show ?thesis
    by (simp add: execute_tool_def)
qed

subsection \<open>Tool results\<close>

lemma execute_tool_calls_map:
  "execute_tool_calls env calls acc =
     acc @ map (\<lambda>tc. ToolMsg (tc_id tc) (tc_name tc) (json_dumps env (tool_result env tc))) calls"
  by (induction calls arbitrary: acc) simp_all

lemma draft_response_body_with_tools:
  assumes "prepare_prompt env = Inr messages" and "first_response env = Inr response"
    and "stream_text rid (chunks response) [] [] = (fs1, Inr (calls, cc))"
    and "failure response = None" and "calls \<noteq> []"
  shows "draft_response_body env rid =
     (case final_response env
             (messages @ [AssistantToolCalls cc calls] @
              map (\<lambda>tc. ToolMsg (tc_id tc) (tc_name tc) (json_dumps env (tool_result env tc)))
                calls) of
        Inl e \<Rightarrow> (fs1 @ [frame rid (wait_variant env) False], Some e)
      | Inr final \<Rightarrow>
          (fs1 @ [frame rid (wait_variant env) False] @ fst (stream_final rid (chunks final)),
           case snd (stream_final rid (chunks final)) of
             Some e \<Rightarrow> Some e
           | None \<Rightarrow> failure final))"
  using assms
  by (simp add: draft_response_body_def followup_messages_def execute_tool_calls_map
      case_prod_beta split: sum.splits option.splits)

text \<open>
  C5. When the model's stream ends with tool calls accumulated, the cycle goes on to
  the follow-up generation, and the messages it gives to it are the prompt, the
  assistant message, and one tool message per accumulated call, in order, each keyed by
  its call's identifier. The content of a tool message is the tool's result, or the
  error payload of that call when its arguments do not parse or its execution raises:
  no failure of a tool call ends the loop or the cycle, which yields the filler frame,
  then the frames of the follow-up stream.
\<close>

theorem one_result_per_tool_call:
  assumes "prepare_prompt env = Inr messages" and "first_response env = Inr response"
    and "stream_text rid (chunks response) [] [] = (fs1, Inr (calls, cc))"
    and "failure response = None" and "calls \<noteq> []"
  shows "draft_response_body env rid =
           (case final_response env
                   (messages @ [AssistantToolCalls cc calls] @
                    map (\<lambda>tc. ToolMsg (tc_id tc) (tc_name tc)
                                (json_dumps env (tool_result env tc))) calls) of
              Inl e \<Rightarrow> (fs1 @ [frame rid (wait_variant env) False], Some e)
            | Inr final \<Rightarrow>
                (fs1 @ [frame rid (wait_variant env) False] @
                   fst (stream_final rid (chunks final)),
                 case snd (stream_final rid (chunks final)) of
                   Some e \<Rightarrow> Some e
                 | None \<Rightarrow> failure final)) \<and>
         map tool_call_id (execute_tool_calls env calls []) = map tc_id calls \<and>
         length (execute_tool_calls env calls []) = length calls \<and>
         (\<forall>tc e. json_loads env (tc_arguments tc) = Inl e \<longrightarrow>
            tool_result env tc =
              JObj [(''error'', JStr (''Error executing tool: '' @ str_of_error e))]) \<and>
         (\<forall>tc args e. json_loads env (tc_arguments tc) = Inr args \<and>
            execute_tool (tools env) (tc_name tc) args = Inl e \<longrightarrow>
            tool_result env tc =
              JObj [(''error'', JStr (''Error executing tool: '' @ str_of_error e))]) \<and>
         (\<forall>tc args result. json_loads env (tc_arguments tc) = Inr args \<and>
            execute_tool (tools env) (tc_name tc) args = Inr result \<longrightarrow>
            tool_result env tc = result)"
proof (intro conjI allI impI)
  show "draft_response_body env rid =
           (case final_response env
                   (messages @ [AssistantToolCalls cc calls] @
                    map (\<lambda>tc. ToolMsg (tc_id tc) (tc_name tc)
                                (json_dumps env (tool_result env tc))) calls) of
              Inl e \<Rightarrow> (fs1 @ [frame rid (wait_variant env) False], Some e)
            | Inr final \<Rightarrow>
                (fs1 @ [frame rid (wait_variant env) False] @
                   fst (stream_final rid (chunks final)),
                 case snd (stream_final rid (chunks final)) of
                   Some e \<Rightarrow> Some e
                 | None \<Rightarrow> failure final))"
    using assms by (rule draft_response_body_with_tools)
next
  show "map tool_call_id (execute_tool_calls env calls []) = map tc_id calls"
    by (simp add: execute_tool_calls_map comp_def)
next
  show "length (execute_tool_calls env calls []) = length calls"
    by (simp add: execute_tool_calls_map)
next
  fix tc e
  assume "json_loads env (tc_arguments tc) = Inl e"
  then show "tool_result env tc =
      JObj [(''error'', JStr (''Error executing tool: '' @ str_of_error e))]"
    by (simp add: tool_result_def)
next
  fix tc args e
  assume "json_loads env (tc_arguments tc) = Inr args \<and>
            execute_tool (tools env) (tc_name tc) args = Inl e"
  then show "tool_result env tc =
      JObj [(''error'', JStr (''Error executing tool: '' @ str_of_error e))]"
    by (simp add: tool_result_def)
next
  fix tc args result
  assume "json_loads env (tc_arguments tc) = Inr args \<and>
            execute_tool (tools env) (tc_name tc) args = Inr result"
  then show "tool_result env tc = result"
    by (simp add: tool_result_def)
qed

lemma tool_cycle_stream:
  "stream_text 1
     [tool_chunk (ToolCallDelta (Some 0) (Some ''call_1'')
                    (Some (FunctionDelta (Some ''PlacesSearch'') (Some ''{'')))),
      tool_chunk (ToolCallDelta (Some 1) (Some ''call_2'')
                    (Some (FunctionDelta (Some ''PlacesSearch'') (Some ''{}''))))]
     [] [] =
   ([], Inr ([ToolCall (Some ''call_1'') ''PlacesSearch'' ''{'',
              ToolCall (Some ''call_2'') ''PlacesSearch'' ''{}''], []))"
  by (simp add: tool_chunk_def nonempty_def accumulate_tool_call_def update_at_def
      py_position_def)

theorem one_result_per_tool_call_witness:
  "draft_response tool_cycle 1 =
     [frame 1 ''Hold on, let me check.'' False, frame 1 ''Done.'' False, frame 1 [] True] \<and>
   tool_result tool_cycle (ToolCall (Some ''call_1'') ''PlacesSearch'' ''{'') =
     JObj [(''error'', JStr ''Error executing tool: Expecting value'')] \<and>
   tool_result tool_cycle (ToolCall (Some ''call_2'') ''PlacesSearch'' ''{}'') =
     JArr [JStr ''Cafe'']"
proof -
  let ?c1 = "ToolCall (Some ''call_1'') ''PlacesSearch'' ''{''"
  let ?c2 = "ToolCall (Some ''call_2'') ''PlacesSearch'' ''{}''"
  let ?response = "Stream
               [tool_chunk (ToolCallDelta (Some 0) (Some ''call_1'')
                              (Some (FunctionDelta (Some ''PlacesSearch'') (Some ''{'')))),
                tool_chunk (ToolCallDelta (Some 1) (Some ''call_2'')
                              (Some (FunctionDelta (Some ''PlacesSearch'') (Some ''{}''))))]
               None"
  have p: "prepare_prompt tool_cycle = Inr [Msg ''system'' ''prompt'']"
    by (simp add: tool_cycle_def)
  have f: "first_response tool_cycle = Inr ?response"
    by (simp add: tool_cycle_def)
  have s: "stream_text 1 (chunks ?response) [] [] = ([], Inr ([?c1, ?c2], []))"
    using tool_cycle_stream by simp
  have n: "failure ?response = None" "[?c1, ?c2] \<noteq> []"
    by simp_all
  note t = one_result_per_tool_call [OF p f s n]
  have l1: "json_loads tool_cycle (tc_arguments ?c1) = Inl (Exc ValueError ''Expecting value'')"
    by (simp add: tool_cycle_def)
  have l2: "json_loads tool_cycle (tc_arguments ?c2) = Inr (JObj []) \<and>
      execute_tool (tools tool_cycle) (tc_name ?c2) (JObj []) = Inr (JArr [JStr ''Cafe''])"
    by (simp add: tool_cycle_def execute_tool_def)
  from t l1 have r1: "tool_result tool_cycle ?c1 =
      JObj [(''error'', JStr ''Error executing tool: Expecting value'')]"
    by simp
  from t l2 have r2: "tool_result tool_cycle ?c2 = JArr [JStr ''Cafe'']"
    by blast
  have m: "final_response tool_cycle
       ([Msg ''system'' ''prompt''] @ [AssistantToolCalls [] [?c1, ?c2]] @
        map (\<lambda>tc. ToolMsg (tc_id tc) (tc_name tc) (json_dumps tool_cycle (tool_result tool_cycle tc)))
          [?c1, ?c2]) =
     Inr (Stream [Chunk [Delta None (Some ''Done.'')]] None)"
    by (simp add: r1 r2) (simp add: tool_cycle_def)
  have w: "wait_variant tool_cycle = ''Hold on, let me check.''"
    by (simp add: tool_cycle_def)
  from t have "draft_response_body tool_cycle 1 =
        ([frame 1 ''Hold on, let me check.'' False, frame 1 ''Done.'' False], None)"
    by (simp only: m w) (simp add: nonempty_def)
  then have "draft_response tool_cycle 1 =
     [frame 1 ''Hold on, let me check.'' False, frame 1 ''Done.'' False, frame 1 [] True]"
    by (simp add: draft_response_def)
  with r1 r2 show ?thesis
    by simp
qed

text \<open>
  The earlier engine of app/llm.py, which the newer one supersedes, does not have the
  property: a call whose arguments do not parse leaves no tool message.
\<close>

lemma legacy_engine_drops_failed_call:
  "execute_tool_calls_legacy sample_cycle 1 [ToolCall (Some ''call_1'') ''PlacesSearch'' ''{''] [] =
     ([frame 1 ''I encountered an issue while searching. Let me try a different approach. ''
         False], [])"
  by (simp add: sample_cycle_def and_then_def)

subsection \<open>Completion of a generation cycle\<close>

lemma partial_frame_frame [simp]: "partial_frame rid (frame rid text False)"
  by (simp add: partial_frame_def frame_def)

lemma stream_text_partial:
  "list_all (partial_frame rid) (fst (stream_text rid cs cur cc))"
  by (induction cs arbitrary: cur cc)
    (auto simp: case_prod_beta split: list.splits sum.splits)

lemma stream_final_partial:
  "list_all (partial_frame rid) (fst (stream_final rid cs))"
  by (induction cs) (auto simp: case_prod_beta split: list.splits)

lemma draft_response_body_partial:
  "list_all (partial_frame rid) (fst (draft_response_body env rid))"
proof -
  have t: "\<And>cs a b fs r. stream_text rid cs a b = (fs, r) \<Longrightarrow> list_all (partial_frame rid) fs"
    using stream_text_partial by (metis fst_conv)
  have f: "\<And>cs fs r. stream_final rid cs = (fs, r) \<Longrightarrow> list_all (partial_frame rid) fs"
    using stream_final_partial by (metis fst_conv)
  show ?thesis
    by (auto simp: draft_response_body_def Let_def dest: t f
        split: sum.splits prod.splits option.splits)
qed

text \<open>
  C2. Run to its end, a generation cycle yields frames that all carry the request's
  response id, none of them complete, followed by exactly one complete frame, which is
  the last: the empty completion signal, or the apology when an exception was raised
  anywhere in the cycle.
\<close>

theorem draft_response_one_complete:
  "\<exists>fs f. draft_response env rid = fs @ [f] \<and>
      list_all (\<lambda>g. \<not> content_complete g \<and> response_id g = rid) fs \<and>
      content_complete f \<and> response_id f = rid \<and>
      length (filter content_complete (draft_response env rid)) = 1 \<and>
      last (draft_response env rid) = f"
proof -
  obtain fs e where b: "draft_response_body env rid = (fs, e)"
    by (cases "draft_response_body env rid")
  have p: "list_all (partial_frame rid) fs"
    using draft_response_body_partial [of rid env] b by simp
  then have q: "list_all (\<lambda>g. \<not> content_complete g \<and> response_id g = rid) fs"
    by (simp add: partial_frame_def [abs_def])
  from p have n: "filter content_complete fs = []"
    by (induction fs) (auto simp: partial_frame_def)
  let ?f = "frame rid (case e of None \<Rightarrow> [] | Some x \<Rightarrow> apology) True"
  have d: "draft_response env rid = fs @ [?f]"
    using b by (simp add: draft_response_def split: option.splits)
  have "content_complete ?f \<and> response_id ?f = rid"
    by (simp add: frame_def)
  with d q n show ?thesis
    by auto
qed

subsection \<open>Session cleanup\<close>















subsection \<open>Supersession on the connection\<close>

lemma draft_response_ids:
  "list_all (\<lambda>f. response_id f = rid) (draft_response env rid)"
proof -
  obtain fs e where b: "draft_response_body env rid = (fs, e)"
    by (cases "draft_response_body env rid")
  have "list_all (partial_frame rid) fs"
    using draft_response_body_partial [of rid env] b by simp
  then have "list_all (\<lambda>f. response_id f = rid) fs"
    by (simp add: list_all_iff partial_frame_def)
  with b show ?thesis
    by (simp add: draft_response_def frame_def split: option.splits)
qed

lemma response_ids_append:
  "response_ids (xs @ ys) = response_ids xs @ response_ids ys"
  by (induction xs rule: response_ids.induct) simp_all

lemma handle_message_interaction:
  "is_interaction data \<Longrightarrow> handle_message w data s = start_response w data s"
  by (auto simp: is_interaction_def handle_message_def)

lemma start_response_no_id:
  "in_response_id data = None \<Longrightarrow> start_response w data s = s"
  by (simp add: start_response_def response_fault_def)

lemma start_response_sent:
  "sent (start_response w data s) = sent s"
  by (simp add: start_response_def response_fault_def Let_def split: option.splits)

lemma start_response_latest:
  "in_response_id data = Some r \<Longrightarrow> latest_response_id (start_response w data s) = r"
  by (simp add: start_response_def response_fault_def Let_def split: option.splits)

lemma start_response_tasks:
  "in_response_id data = Some r \<Longrightarrow>
     tasks (start_response w data s) = tasks s \<or>
     tasks (start_response w data s) = tasks s @ [(r, draft_response (cycle w) r)]"
  by (simp add: start_response_def response_fault_def Let_def split: option.splits)

lemma start_response_coherent:
  assumes "coherent s" and "all_below s r" and "in_response_id data = Some r"
  shows "coherent (start_response w data s)"
proof -
  let ?s = "start_response w data s"
  have l: "latest_response_id ?s = r"
    using assms(3) by (rule start_response_latest)
  have old: "list_all (\<lambda>(rid, pending). rid \<le> r \<and> list_all (\<lambda>f. response_id f = rid) pending)
               (tasks s)"
    using assms(1,2) by (auto simp: coherent_def all_below_def list_all_iff)
  have new: "list_all (\<lambda>f. response_id f = r) (draft_response (cycle w) r)"
    by (rule draft_response_ids)
  have t: "list_all (\<lambda>(rid, pending). rid \<le> r \<and> list_all (\<lambda>f. response_id f = rid) pending)
             (tasks ?s)"
    using start_response_tasks [OF assms(3), of w s] old new by auto
  have i: "list_all (\<lambda>i. i \<le> r) (response_ids (sent s))"
    using assms(2) by (auto simp: all_below_def list_all_iff)
  have "sorted (response_ids (sent s))"
    using assms(1) by (simp add: coherent_def)
  with t i l show ?thesis
    by (simp add: coherent_def start_response_sent)
qed

lemma start_response_all_below:
  assumes "all_below s r" and "in_response_id data = Some r" and "r < r'"
  shows "all_below (start_response w data s) r'"
proof -
  have "list_all (\<lambda>(rid, pending). rid < r') (tasks s)"
    using assms(1,3) by (auto simp: all_below_def list_all_iff)
  then have "list_all (\<lambda>(rid, pending). rid < r') (tasks (start_response w data s))"
    using start_response_tasks [OF assms(2), of w s] assms(3) by auto
  moreover have "list_all (\<lambda>i. i < r') (response_ids (sent s))"
    using assms(1,3) by (auto simp: all_below_def list_all_iff)
  ultimately show ?thesis
    by (simp add: all_below_def start_response_sent)
qed

lemma resume_cases:
  "resume k s = s \<or>
   (\<exists>rid event later. k < length (tasks s) \<and> tasks s ! k = (rid, event # later) \<and>
      ((rid < latest_response_id s \<or> \<not> alive s) \<and>
         resume k s = s\<lparr>tasks := (tasks s)[k := (rid, [])]\<rparr> \<or>
       \<not> rid < latest_response_id s \<and> alive s \<and>
         resume k s = s\<lparr>sent := sent s @ [Response event],
                         tasks := (tasks s)[k := (rid, later)]\<rparr>))"
  by (auto simp: resume_def send_json_def response_fault_def split: prod.splits list.splits)

lemma list_all_update:
  "list_all P xs \<Longrightarrow> P x \<Longrightarrow> list_all P (xs[k := x])"
  by (metis list_all_iff set_update_subset_insert subsetD insert_iff)

lemma resume_coherent:
  assumes "coherent s"
  shows "coherent (resume k s)"
proof -
  from resume_cases [of k s] consider
      (same) "resume k s = s"
    | (stop) rid event later where "k < length (tasks s)" "tasks s ! k = (rid, event # later)"
        "resume k s = s\<lparr>tasks := (tasks s)[k := (rid, [])]\<rparr>"
    | (emit) rid event later where "k < length (tasks s)" "tasks s ! k = (rid, event # later)"
        "\<not> rid < latest_response_id s"
        "resume k s = s\<lparr>sent := sent s @ [Response event],
                         tasks := (tasks s)[k := (rid, later)]\<rparr>"
    by blast
  then show ?thesis
  proof cases
    case same
    with assms show ?thesis by simp
  next
    case stop
    from assms have ts: "list_all (\<lambda>(rid, pending). rid \<le> latest_response_id s \<and>
                  list_all (\<lambda>f. response_id f = rid) pending) (tasks s)"
      by (simp add: coherent_def)
    from stop(1,2) have "(rid, event # later) \<in> set (tasks s)"
      by (metis nth_mem)
    with ts have "rid \<le> latest_response_id s"
      by (auto simp: list_all_iff)
    with ts have "list_all (\<lambda>(rid, pending). rid \<le> latest_response_id s \<and>
                  list_all (\<lambda>f. response_id f = rid) pending) ((tasks s)[k := (rid, [])])"
      by (intro list_all_update) auto
    with assms stop(3) show ?thesis
      by (simp add: coherent_def)
  next
    case emit
    from assms have ts: "list_all (\<lambda>(rid, pending). rid \<le> latest_response_id s \<and>
                  list_all (\<lambda>f. response_id f = rid) pending) (tasks s)"
      and ids: "list_all (\<lambda>i. i \<le> latest_response_id s) (response_ids (sent s))"
      and srt: "sorted (response_ids (sent s))"
      by (simp_all add: coherent_def)
    from emit(1,2) have "(rid, event # later) \<in> set (tasks s)"
      by (metis nth_mem)
    with ts have r: "rid \<le> latest_response_id s" "response_id event = rid"
      "list_all (\<lambda>f. response_id f = rid) later"
      by (auto simp: list_all_iff)
    with emit(3) have eq: "response_id event = latest_response_id s"
      by simp
    from ts r have t': "list_all (\<lambda>(rid, pending). rid \<le> latest_response_id s \<and>
                  list_all (\<lambda>f. response_id f = rid) pending) ((tasks s)[k := (rid, later)])"
      by (intro list_all_update) auto
    from ids srt eq have "sorted (response_ids (sent s) @ [response_id event])"
      by (auto simp: sorted_append list_all_iff)
    with t' ids eq emit(4) show ?thesis
      by (simp add: coherent_def response_ids_append)
  qed
qed

lemma resume_all_below:
  assumes "coherent s" and "all_below s r"
  shows "all_below (resume k s) r"
proof -
  from assms(2) have ts: "list_all (\<lambda>(rid, pending). rid < r) (tasks s)"
    and ids: "list_all (\<lambda>i. i < r) (response_ids (sent s))"
    by (simp_all add: all_below_def)
  from resume_cases [of k s] consider
      (same) "resume k s = s"
    | (stop) rid event later where "k < length (tasks s)" "tasks s ! k = (rid, event # later)"
        "resume k s = s\<lparr>tasks := (tasks s)[k := (rid, [])]\<rparr>"
    | (emit) rid event later where "k < length (tasks s)" "tasks s ! k = (rid, event # later)"
        "resume k s = s\<lparr>sent := sent s @ [Response event],
                         tasks := (tasks s)[k := (rid, later)]\<rparr>"
    by blast
  then show ?thesis
  proof cases
    case same
    with assms show ?thesis by simp
  next
    case stop
    from stop(1,2) have "(rid, event # later) \<in> set (tasks s)"
      by (metis nth_mem)
    with ts have "rid < r"
      by (auto simp: list_all_iff)
    with ts have "list_all (\<lambda>(rid, pending). rid < r) ((tasks s)[k := (rid, [])])"
      by (intro list_all_update) auto
    with ids stop(3) show ?thesis
      by (simp add: all_below_def)
  next
    case emit
    from emit(1,2) have m: "(rid, event # later) \<in> set (tasks s)"
      by (metis nth_mem)
    with ts have b: "rid < r"
      by (auto simp: list_all_iff)
    from assms(1) m have "response_id event = rid"
      by (auto simp: coherent_def list_all_iff)
    with b ids have i': "list_all (\<lambda>i. i < r) (response_ids (sent s @ [Response event]))"
      by (simp add: response_ids_append)
    from ts b have "list_all (\<lambda>(rid, pending). rid < r) ((tasks s)[k := (rid, later)])"
      by (intro list_all_update) auto
    with i' emit(3) show ?thesis
      by (simp add: all_below_def)
  qed
qed

lemma run_coherent:
  assumes "coherent s" and "only_interactions es" and "sorted_wrt (<) (request_ids es)"
    and "list_all (all_below s) (request_ids es)"
  shows "coherent (run es s)"
  using assms
proof (induction es arbitrary: s)
  case Nil
  then show ?case by simp
next
  case (Cons e es)
  show ?case
  proof (cases e)
    case (Receive data w)
    with Cons.prems(2) have ia: "is_interaction data" and oi: "only_interactions es"
      by simp_all
    have st: "step e s = start_response w data s"
      using Receive ia by (simp add: handle_message_interaction)
    show ?thesis
    proof (cases "in_response_id data")
      case None
      with st have "step e s = s"
        by (simp add: start_response_no_id)
      moreover from None Receive have "request_ids (e # es) = request_ids es"
        by simp
      ultimately show ?thesis
        using Cons.IH [of s] Cons.prems oi by simp
    next
      case (Some r)
      with Receive ia have ids: "request_ids (e # es) = r # request_ids es"
        by simp
      with Cons.prems(3,4) have below: "all_below s r" and later: "\<forall>r' \<in> set (request_ids es). r < r'"
        and srt: "sorted_wrt (<) (request_ids es)"
        by simp_all
      have c: "coherent (step e s)"
        unfolding st using Cons.prems(1) below Some by (rule start_response_coherent)
      have "list_all (all_below (step e s)) (request_ids es)"
        unfolding st list_all_iff
        using start_response_all_below [OF below Some] later by blast
      with c oi srt show ?thesis
        using Cons.IH [of "step e s"] by simp
    qed
  next
    case (Resume k)
    with Cons.prems(2) have oi: "only_interactions es"
      by simp
    from Resume have ids: "request_ids (e # es) = request_ids es"
      by simp
    have c: "coherent (step e s)"
      using Resume Cons.prems(1) by (simp add: resume_coherent)
    have "list_all (all_below (step e s)) (request_ids es)"
      using Resume Cons.prems(1,4) ids resume_all_below [of s]
      by (auto simp: list_all_iff)
    with c oi Cons.prems(3) ids show ?thesis
      using Cons.IH [of "step e s"] by simp
  next
    case Disconnect
    with Cons.prems(2) have oi: "only_interactions es"
      by simp
    from Disconnect have ids: "request_ids (e # es) = request_ids es"
      by simp
    have c: "coherent (step e s)"
      using Disconnect Cons.prems(1) by (simp add: coherent_def)
    have "list_all (all_below (step e s)) (request_ids es)"
      using Disconnect Cons.prems(4) ids by (simp add: all_below_def list_all_iff)
    with c oi Cons.prems(3) ids show ?thesis
      using Cons.IH [of "step e s"] by simp
  qed
qed

lemma connected_coherent: "coherent connected"
  by (simp add: coherent_def connected_def)

lemma connected_all_below: "all_below connected r"
  by (simp add: all_below_def connected_def)

text \<open>
  C1. Over every schedule of arrivals of interaction requests and turns of their
  handler tasks in which the response ids arrive strictly increasing, the response ids
  of the frames written never step down: once a frame of a higher id is out, no frame
  of a lower id follows. The check that does it sits immediately before each write: a
  task whose request id is below the shared id writes nothing and ends.
\<close>

theorem no_stale_frame_after_newer:
  assumes "only_interactions es" and "sorted_wrt (<) (request_ids es)"
  shows "sorted (response_ids (sent (run es connected))) \<and>
         (\<forall>k s rid event later.
            k < length (tasks s) \<and> tasks s ! k = (rid, event # later) \<and>
            rid < latest_response_id s \<longrightarrow>
              sent (resume k s) = sent s \<and> tasks (resume k s) ! k = (rid, []))"
proof
  have "list_all (all_below connected) (request_ids es)"
    by (simp add: list_all_iff connected_all_below)
  with connected_coherent assms have "coherent (run es connected)"
    by (rule run_coherent)
  then show "sorted (response_ids (sent (run es connected)))"
    by (simp add: coherent_def)
next
  show "\<forall>k s rid event later.
            k < length (tasks s) \<and> tasks s ! k = (rid, event # later) \<and>
            rid < latest_response_id s \<longrightarrow>
              sent (resume k s) = sent s \<and> tasks (resume k s) ! k = (rid, [])"
    by (simp add: resume_def)
qed

lemma sample_frames:
  "draft_response sample_cycle rid =
     [frame rid ''Hello'' False, frame rid '' there'' False, frame rid [] True]"
  by (simp add: draft_response_def draft_response_body_def sample_cycle_def nonempty_def)

lemma sample_request_interaction: "is_interaction (sample_request rid)"
  by (simp add: is_interaction_def sample_request_def)

lemma sample_request_id: "in_response_id (sample_request rid) = Some rid"
  by (simp add: sample_request_def)

lemma step_sample_request:
  "step (Receive (sample_request rid) sample_world) s =
     s\<lparr>latest_response_id := rid,
       tasks := tasks s @ [(rid, [frame rid ''Hello'' False, frame rid '' there'' False,
                                  frame rid [] True])]\<rparr>"
proof -
  have "step (Receive (sample_request rid) sample_world) s =
          start_response sample_world (sample_request rid) s"
    by (simp add: handle_message_interaction sample_request_interaction)
  also have "\<dots> = s\<lparr>latest_response_id := rid,
       tasks := tasks s @ [(rid, draft_response sample_cycle rid)]\<rparr>"
    by (simp add: start_response_def sample_request_def sample_world_def)
  finally show ?thesis
    by (simp add: sample_frames)
qed

theorem no_stale_frame_after_newer_witness:
  "sorted (response_ids (sent (run
      [Receive (sample_request 1) sample_world, Resume 0,
       Receive (sample_request 2) sample_world, Resume 1, Resume 0, Resume 1, Resume 0, Resume 1]
      connected))) \<and>
   response_ids (sent (run
      [Receive (sample_request 1) sample_world, Resume 0,
       Receive (sample_request 2) sample_world, Resume 1, Resume 0, Resume 1, Resume 0, Resume 1]
      connected)) = [1, 2, 2, 2]"
proof -
  let ?es = "[Receive (sample_request 1) sample_world, Resume 0,
       Receive (sample_request 2) sample_world, Resume 1, Resume 0, Resume 1, Resume 0, Resume 1]"
  have i: "only_interactions ?es"
    by (simp add: sample_request_interaction)
  have r: "sorted_wrt (<) (request_ids ?es)"
    by (simp add: sample_request_interaction sample_request_id)
  have "response_ids (sent (run ?es connected)) = [1, 2, 2, 2]"
    by (simp add: step_sample_request del: step.simps(1))
      (simp add: connected_def resume_def send_json_def frame_def)
  with no_stale_frame_after_newer [OF i r] show ?thesis
    by blast
qed

subsection \<open>The shared response id\<close>

lemma handle_message_latest:
  "\<not> is_interaction data \<Longrightarrow>
     latest_response_id (handle_message w data s) = latest_response_id s"
  by (auto simp: is_interaction_def handle_message_def message_fault_def send_json_def
      split: option.splits prod.splits sum.splits)

lemma resume_latest: "latest_response_id (resume k s) = latest_response_id s"
  using resume_cases [of k s] by auto

lemma step_latest:
  "latest_response_id (step e s) =
     (case e of
        Receive data w \<Rightarrow>
          (case in_response_id data of
             Some r \<Rightarrow> if is_interaction data then r else latest_response_id s
           | None \<Rightarrow> latest_response_id s)
      | _ \<Rightarrow> latest_response_id s)"
proof (cases e)
  case (Receive data w)
  show ?thesis
  proof (cases "is_interaction data")
    case True
    then show ?thesis
      using Receive
      by (auto simp: handle_message_interaction start_response_latest start_response_no_id
          split: option.splits)
  next
    case False
    then show ?thesis
      using Receive by (simp add: handle_message_latest split: option.splits)
  qed
next
  case (Resume k)
  then show ?thesis by (simp add: resume_latest)
next
  case Disconnect
  then show ?thesis by simp
qed

lemma latest_trace_sorted:
  "sorted (latest_response_id s # request_ids es) \<Longrightarrow>
     sorted (latest_response_id s # latest_trace es s)"
proof (induction es arbitrary: s)
  case Nil
  then show ?case by simp
next
  case (Cons e es)
  show ?case
  proof (cases "\<exists>data w r. e = Receive data w \<and> in_response_id data = Some r \<and> is_interaction data")
    case True
    then obtain data w r where e: "e = Receive data w" "in_response_id data = Some r"
      "is_interaction data"
      by blast
    then have l: "latest_response_id (step e s) = r"
      by (simp add: step_latest del: step.simps)
    from e have "request_ids (e # es) = r # request_ids es"
      by simp
    with Cons.prems have "latest_response_id s \<le> r" "sorted (r # request_ids es)"
      by simp_all
    with l Cons.IH [of "step e s"] show ?thesis
      by auto
  next
    case False
    then have l: "latest_response_id (step e s) = latest_response_id s"
      by (cases e) (auto simp: step_latest simp del: step.simps split: option.splits)
    from False have "request_ids (e # es) = request_ids es"
      by (cases e) (auto split: option.splits)
    with Cons.prems l Cons.IH [of "step e s"] show ?thesis
      by auto
  qed
qed

text \<open>
  C3 (as amended). An interaction request sets the shared response id to its own id,
  whatever the value before. So the id never steps down over a schedule whose requests
  arrive with ids in non-decreasing order, starting at or above the current value.
\<close>

theorem latest_response_id_follows_arrival:
  "(\<forall>r. in_response_id data = Some r \<and> is_interaction data \<longrightarrow>
       latest_response_id (step (Receive data w) s) = r) \<and>
   (sorted (latest_response_id s # request_ids es) \<longrightarrow>
       sorted (latest_response_id s # latest_trace es s))"
proof (intro conjI allI impI)
  fix r
  assume "in_response_id data = Some r \<and> is_interaction data"
  then show "latest_response_id (step (Receive data w) s) = r"
    by (simp add: step_latest del: step.simps)
next
  assume "sorted (latest_response_id s # request_ids es)"
  then show "sorted (latest_response_id s # latest_trace es s)"
    by (rule latest_trace_sorted)
qed

theorem latest_response_id_follows_arrival_witness:
  "latest_response_id (step (Receive (sample_request 4) sample_world) connected) = 4 \<and>
   sorted (latest_response_id connected #
           latest_trace [Receive (sample_request 1) sample_world, Resume 0,
                         Receive (sample_request 2) sample_world] connected)"
proof -
  let ?es = "[Receive (sample_request 1) sample_world, Resume 0,
              Receive (sample_request 2) sample_world]"
  have a: "in_response_id (sample_request 4) = Some 4 \<and> is_interaction (sample_request 4)"
    by (simp add: sample_request_interaction sample_request_id)
  have b: "sorted (latest_response_id connected # request_ids ?es)"
    by (simp add: sample_request_interaction sample_request_id connected_def)
  from latest_response_id_follows_arrival [of "sample_request 4" sample_world connected ?es] a b
  show ?thesis
    by blast
qed

text \<open>
  C3 as stated fails when requests arrive out of order: the id steps down from 5 to 3.
\<close>

theorem latest_response_id_steps_down:
  "latest_trace [Receive (sample_request 5) sample_world,
                 Receive (sample_request 3) sample_world] connected = [5, 3]"
  by (simp add: step_latest sample_request_interaction sample_request_id del: step.simps)

subsection \<open>Faults while handling a frame\<close>

lemma malformed_interaction_writes_nothing:
  assumes "is_interaction data" and "in_response_id data = None \<or> transcript data = None"
  shows "sent (step (Receive data w) s) = sent s \<and> tasks (step (Receive data w) s) = tasks s"
  using assms
  by (auto simp: handle_message_interaction start_response_def response_fault_def Let_def
      split: option.splits)

text \<open>
  C6. A \<open>response_required\<close> frame without its transcript makes the handler raise
  \<open>KeyError\<close> after the shared response id is assigned and before \<open>request\<close> is; the
  handler's \<open>except\<close> clause then fails on \<open>request.response_id\<close>, and no frame at all
  is written for response id 7, on a live socket.
\<close>

theorem malformed_request_gets_no_reply:
  "step (Receive \<lparr>interaction_type = Some ''response_required'', in_response_id = Some 7,
                  transcript = None, timestamp = None, call = None\<rparr> w) connected =
     connected\<lparr>latest_response_id := 7\<rparr> \<and>
   sent (connected\<lparr>latest_response_id := 7\<rparr>) = [] \<and> alive connected"
  by (simp add: handle_message_def start_response_def response_fault_def connected_def)

end
